theory Spec2Isabelle
  imports Complex_Main
begin

section \<open>JavaScript numbers and values\<close>

text \<open>
  A JavaScript number is modelled as a real number or one of the three special values of
  IEEE 754.  Rounding, overflow of finite results and the sign of zero are not modelled:
  arithmetic on finite values is exact real arithmetic, and a division of a non-zero finite
  value by zero yields the infinity whose sign is the sign of the dividend.
\<close>

datatype jsnum = Fin real | PInf | NInf | NaN

fun isFinite :: "jsnum \<Rightarrow> bool" where
  "isFinite (Fin x) = True"
| "isFinite PInf = False"
| "isFinite NInf = False"
| "isFinite NaN = False"

fun js_neg :: "jsnum \<Rightarrow> jsnum" where
  "js_neg (Fin x) = Fin (- x)"
| "js_neg PInf = NInf"
| "js_neg NInf = PInf"
| "js_neg NaN = NaN"

fun js_add :: "jsnum \<Rightarrow> jsnum \<Rightarrow> jsnum" where
  "js_add (Fin x) (Fin y) = Fin (x + y)"
| "js_add NaN b = NaN"
| "js_add a NaN = NaN"
| "js_add PInf NInf = NaN"
| "js_add NInf PInf = NaN"
| "js_add PInf b = PInf"
| "js_add NInf b = NInf"
| "js_add a PInf = PInf"
| "js_add a NInf = NInf"

definition js_sub :: "jsnum \<Rightarrow> jsnum \<Rightarrow> jsnum" where
  "js_sub a b = js_add a (js_neg b)"

text \<open>The sign of a non-NaN value: \<open>1\<close>, \<open>0\<close> or \<open>-1\<close>.\<close>

fun js_sign :: "jsnum \<Rightarrow> int" where
  "js_sign (Fin x) = (if x > 0 then 1 else if x < 0 then - 1 else 0)"
| "js_sign PInf = 1"
| "js_sign NInf = - 1"
| "js_sign NaN = 0"

fun js_mul :: "jsnum \<Rightarrow> jsnum \<Rightarrow> jsnum" where
  "js_mul (Fin x) (Fin y) = Fin (x * y)"
| "js_mul NaN b = NaN"
| "js_mul a NaN = NaN"
| "js_mul a b =
     (if js_sign a * js_sign b = 0 then NaN
      else if js_sign a * js_sign b > 0 then PInf else NInf)"

fun js_div :: "jsnum \<Rightarrow> jsnum \<Rightarrow> jsnum" where
  "js_div (Fin x) (Fin y) =
     (if y = 0 then (if x = 0 then NaN else if x > 0 then PInf else NInf)
      else Fin (x / y))"
| "js_div NaN b = NaN"
| "js_div a NaN = NaN"
| "js_div (Fin x) b = Fin 0"
| "js_div a (Fin y) = (if js_sign a * (if y < 0 then - 1 else 1) > 0 then PInf else NInf)"
| "js_div a b = NaN"

fun js_abs :: "jsnum \<Rightarrow> jsnum" where
  "js_abs (Fin x) = Fin \<bar>x\<bar>"
| "js_abs PInf = PInf"
| "js_abs NInf = PInf"
| "js_abs NaN = NaN"

text \<open>Comparison \<open>a > b\<close>: false as soon as one side is \<open>NaN\<close>.\<close>

fun js_gt :: "jsnum \<Rightarrow> jsnum \<Rightarrow> bool" where
  "js_gt (Fin x) (Fin y) = (x > y)"
| "js_gt NaN b = False"
| "js_gt a NaN = False"
| "js_gt PInf b = (b \<noteq> PInf)"
| "js_gt a NInf = (a \<noteq> NInf)"
| "js_gt a b = False"

definition js_lt :: "jsnum \<Rightarrow> jsnum \<Rightarrow> bool" where
  "js_lt a b = js_gt b a"

text \<open>\<open>Math.max\<close> and \<open>Math.min\<close> of two arguments: \<open>NaN\<close> if either is.\<close>

definition js_max :: "jsnum \<Rightarrow> jsnum \<Rightarrow> jsnum" where
  "js_max a b = (if a = NaN \<or> b = NaN then NaN else if js_gt b a then b else a)"

definition js_min :: "jsnum \<Rightarrow> jsnum \<Rightarrow> jsnum" where
  "js_min a b = (if a = NaN \<or> b = NaN then NaN else if js_gt a b then b else a)"

fun js_sqrt :: "jsnum \<Rightarrow> jsnum" where
  "js_sqrt (Fin x) = (if x < 0 then NaN else Fin (sqrt x))"
| "js_sqrt PInf = PInf"
| "js_sqrt NInf = NaN"
| "js_sqrt NaN = NaN"

text \<open>The remainder operator \<open>%\<close> (the result has the sign of the dividend).\<close>

fun js_mod :: "jsnum \<Rightarrow> jsnum \<Rightarrow> jsnum" where
  "js_mod (Fin x) (Fin y) =
     (if y = 0 then NaN
      else Fin (x - y * of_int (if x / y < 0 then \<lceil>x / y\<rceil> else \<lfloor>x / y\<rfloor>)))"
| "js_mod NaN b = NaN"
| "js_mod a NaN = NaN"
| "js_mod (Fin x) b = Fin x"
| "js_mod a b = NaN"

fun js_sin :: "jsnum \<Rightarrow> jsnum" where
  "js_sin (Fin x) = Fin (sin x)"
| "js_sin a = NaN"

text \<open>
  The range of binary64, for the one model below whose claim is about finite results.  The
  largest finite double is \<open>2^1024 - 2^971\<close>; an exact result of magnitude \<open>2^1024\<close> or
  more is an infinity in binary64, and \<open>dbl\<close> maps it there.  An exact result of magnitude
  at most \<open>maxDouble\<close> stays finite.
\<close>

definition maxDouble :: real where
  "maxDouble = 2 ^ 1024 - 2 ^ 971"

definition dbl :: "jsnum \<Rightarrow> jsnum" where
  "dbl a = (case a of
              Fin x \<Rightarrow> (if 2 ^ 1024 \<le> x then PInf else if x \<le> - (2 ^ 1024) then NInf else Fin x)
            | _ \<Rightarrow> a)"

text \<open>
  The values held by the string-keyed property bag of a component
  (\<open>ComponentProperties\<close>, \<open>[key: string]: any\<close>).
\<close>

datatype WaveformType = DC | SINE | SQUARE | PULSE | TRIANGLE

record WaveformConfig =
  wtype :: WaveformType
  frequency :: jsnum
  dutyCycle :: jsnum
  phase :: jsnum
  offset :: jsnum

datatype jsval = Undefined | Num jsnum | Bool bool | Str string | Wave WaveformConfig

text \<open>
  \<open>ToNumber\<close>.  No modelled expression applies arithmetic to a string or to a waveform
  object; both are mapped to \<open>NaN\<close> (parsing of numeric strings is not modelled).
\<close>

fun toNum :: "jsval \<Rightarrow> jsnum" where
  "toNum Undefined = NaN"
| "toNum (Num n) = n"
| "toNum (Bool b) = (if b then Fin 1 else Fin 0)"
| "toNum (Str s) = NaN"
| "toNum (Wave w) = NaN"

fun truthy :: "jsval \<Rightarrow> bool" where
  "truthy Undefined = False"
| "truthy (Num n) = (n \<noteq> Fin 0 \<and> n \<noteq> NaN)"
| "truthy (Bool b) = b"
| "truthy (Str s) = (s \<noteq> [])"
| "truthy (Wave w) = True"

text \<open>\<open>a || b\<close>\<close>

definition js_or :: "jsval \<Rightarrow> jsval \<Rightarrow> jsval" where
  "js_or a b = (if truthy a then a else b)"

section \<open>Data model\<close>

datatype ComponentType =
    RESISTOR | CAPACITOR | INDUCTOR | DIODE | ZENER_DIODE | LED | FUSE
  | VOLTAGE_SOURCE | CURRENT_SOURCE | BATTERY | GROUND
  | MOSFET | BJT | JFET | THYRISTOR | TRANSISTOR | OPTOCOUPLER
  | LOGIC_GATE_AND | LOGIC_GATE_OR | LOGIC_GATE_NOT | LOGIC_GATE_NAND | LOGIC_GATE_XOR | OP_AMP
  | SWITCH | POTENTIOMETER | VARISTOR | MCB | RELAY
  | LAMP | DC_MOTOR

text \<open>Positions, offsets and meshes are presentation data and are left out.\<close>

record Terminal =
  tid :: string
  componentId :: string
  name :: string
  voltage :: jsnum
  current :: jsnum

record Component =
  cid :: string
  ctype :: ComponentType
  terminals :: "Terminal list"
  properties :: "string \<Rightarrow> jsval"

record Wire =
  wid :: string
  fromTerminal :: string
  toTerminal :: string
  wcurrent :: jsnum
  wvoltage :: jsnum

text \<open>
  A \<open>Map<string, number>\<close> keeps its keys in insertion order: an association list.
  \<open>mapSet\<close> overwrites the value of a key in place or appends a new key.
\<close>

fun mapSet :: "'k \<Rightarrow> 'v \<Rightarrow> ('k \<times> 'v) list \<Rightarrow> ('k \<times> 'v) list" where
  "mapSet k v [] = [(k, v)]"
| "mapSet k v ((k', v') # m) = (if k = k' then (k, v) # m else (k', v') # mapSet k v m)"

definition mapGet :: "(string \<times> jsnum) list \<Rightarrow> string \<Rightarrow> jsval" where
  "mapGet m k = (case map_of m k of None \<Rightarrow> Undefined | Some v \<Rightarrow> Num v)"

text \<open>\<open>nodeVoltages.get(id) || 0\<close>, as every \<open>simulate\<close> method reads a terminal voltage.\<close>

definition readVoltage :: "(string \<times> jsnum) list \<Rightarrow> string \<Rightarrow> jsnum" where
  "readVoltage nodeVoltages k = toNum (js_or (mapGet nodeVoltages k) (Num (Fin 0)))"

text \<open>The four assignments to the terminals that end most \<open>simulate\<close> methods.\<close>

definition setTerminals :: "jsnum \<Rightarrow> jsnum \<Rightarrow> jsnum \<Rightarrow> Terminal list \<Rightarrow> Terminal list" where
  "setTerminals v0 v1 i ts =
     (let ts = ts[0 := (ts ! 0)\<lparr>voltage := v0, current := i\<rparr>]
      in ts[1 := (ts ! 1)\<lparr>voltage := v1, current := js_neg i\<rparr>])"

section \<open>Component constructors\<close>

definition createTerminal :: "string \<Rightarrow> string \<Rightarrow> Terminal" where
  "createTerminal this_id nm =
     \<lparr>tid = this_id @ ''-'' @ nm, componentId = this_id, name = nm,
      voltage = Fin 0, current = Fin 0\<rparr>"

definition noProps :: "string \<Rightarrow> jsval" where
  "noProps = (\<lambda>k. Undefined)"

definition Resistor_new :: "string \<Rightarrow> jsnum \<Rightarrow> Component" where
  "Resistor_new i resistance =
     \<lparr>cid = i, ctype = RESISTOR,
      terminals = [createTerminal i ''terminal1'', createTerminal i ''terminal2''],
      properties = noProps(''value'' := Num resistance, ''voltage'' := Num (Fin 0),
        ''current'' := Num (Fin 0), ''power'' := Num (Fin 0), ''temperature'' := Num (Fin 25))\<rparr>"

definition Capacitor_new :: "string \<Rightarrow> jsnum \<Rightarrow> Component" where
  "Capacitor_new i capacitance =
     \<lparr>cid = i, ctype = CAPACITOR,
      terminals = [createTerminal i ''positive'', createTerminal i ''negative''],
      properties = noProps(''capacitance'' := Num capacitance, ''voltage'' := Num (Fin 0),
        ''current'' := Num (Fin 0), ''charge'' := Num (Fin 0), ''maxVoltage'' := Num (Fin 50),
        ''power'' := Num (Fin 0), ''energy'' := Num (Fin 0))\<rparr>"

definition Inductor_new :: "string \<Rightarrow> jsnum \<Rightarrow> Component" where
  "Inductor_new i inductance =
     \<lparr>cid = i, ctype = INDUCTOR,
      terminals = [createTerminal i ''terminal1'', createTerminal i ''terminal2''],
      properties = noProps(''inductance'' := Num inductance, ''voltage'' := Num (Fin 0),
        ''current'' := Num (Fin 0), ''maxCurrent'' := Num (Fin 10), ''power'' := Num (Fin 0),
        ''energy'' := Num (Fin 0), ''flux'' := Num (Fin 0))\<rparr>"

definition Diode_new :: "string \<Rightarrow> jsnum \<Rightarrow> Component" where
  "Diode_new i forwardVoltage =
     \<lparr>cid = i, ctype = DIODE,
      terminals = [createTerminal i ''anode'', createTerminal i ''cathode''],
      properties = noProps(''forwardVoltage'' := Num forwardVoltage,
        ''reverseBreakdown'' := Num (Fin 50), ''maxCurrent'' := Num (Fin 1),
        ''voltage'' := Num (Fin 0), ''current'' := Num (Fin 0), ''power'' := Num (Fin 0),
        ''conducting'' := Bool False)\<rparr>"

definition LED_new :: "string \<Rightarrow> string \<Rightarrow> jsnum \<Rightarrow> Component" where
  "LED_new i color forwardVoltage =
     \<lparr>cid = i, ctype = LED,
      terminals = [createTerminal i ''anode'', createTerminal i ''cathode''],
      properties = noProps(''color'' := Str color, ''forwardVoltage'' := Num forwardVoltage,
        ''maxCurrent'' := Num (Fin (2 / 100)), ''voltage'' := Num (Fin 0),
        ''current'' := Num (Fin 0), ''brightness'' := Num (Fin 0), ''power'' := Num (Fin 0))\<rparr>"

definition Fuse_new :: "string \<Rightarrow> jsnum \<Rightarrow> Component" where
  "Fuse_new i rating =
     \<lparr>cid = i, ctype = FUSE,
      terminals = [createTerminal i ''in'', createTerminal i ''out''],
      properties = noProps(''rating'' := Num rating, ''voltage'' := Num (Fin 0),
        ''current'' := Num (Fin 0), ''power'' := Num (Fin 0), ''blown'' := Bool False,
        ''resistance'' := Num (Fin (1 / 100)), ''heatAccumulated'' := Num (Fin 0),
        ''maxCurrent'' := Num rating)\<rparr>"

definition VoltageSource_new :: "string \<Rightarrow> Component" where
  "VoltageSource_new i =
     \<lparr>cid = i, ctype = VOLTAGE_SOURCE,
      terminals = [createTerminal i ''positive'', createTerminal i ''negative''],
      properties = noProps(''voltage'' := Num (Fin 5), ''current'' := Num (Fin 0),
        ''maxCurrent'' := Num (Fin 1),
        ''waveform'' := Wave \<lparr>wtype = DC, frequency = Fin 60, dutyCycle = Fin (1 / 2),
                                phase = Fin 0, offset = Fin 0\<rparr>,
        ''power'' := Num (Fin 0))\<rparr>"

definition Battery_new :: "string \<Rightarrow> jsnum \<Rightarrow> jsnum \<Rightarrow> Component" where
  "Battery_new i v capacity =
     \<lparr>cid = i, ctype = BATTERY,
      terminals = [createTerminal i ''positive'', createTerminal i ''negative''],
      properties = noProps(''voltage'' := Num v, ''capacity'' := Num capacity,
        ''chargeRemaining'' := Num capacity, ''current'' := Num (Fin 0), ''power'' := Num (Fin 0),
        ''chargePercent'' := Num (Fin 100), ''internalResistance'' := Num (Fin (1 / 10)),
        ''maxCurrent'' := Num (Fin 5), ''maxPower'' := Num (Fin 45))\<rparr>"

definition Ground_new :: "string \<Rightarrow> Component" where
  "Ground_new i =
     \<lparr>cid = i, ctype = GROUND,
      terminals = [createTerminal i ''ground''],
      properties = noProps(''voltage'' := Num (Fin 0))\<rparr>"

definition Switch_new :: "string \<Rightarrow> bool \<Rightarrow> Component" where
  "Switch_new i closed0 =
     \<lparr>cid = i, ctype = SWITCH,
      terminals = [createTerminal i ''in'', createTerminal i ''out''],
      properties = noProps(''closed'' := Bool closed0, ''voltage'' := Num (Fin 0),
        ''current'' := Num (Fin 0),
        ''resistance'' := Num (if closed0 then Fin (1 / 100) else Fin 1000000000),
        ''maxCurrent'' := Num (Fin 10))\<rparr>"

definition Potentiometer_new :: "string \<Rightarrow> jsnum \<Rightarrow> jsnum \<Rightarrow> Component" where
  "Potentiometer_new i maxResistance position_percent =
     \<lparr>cid = i, ctype = POTENTIOMETER,
      terminals = [createTerminal i ''terminal1'', createTerminal i ''terminal2''],
      properties = noProps(''maxResistance'' := Num maxResistance,
        ''position'' := Num position_percent,
        ''value'' := Num (js_div (js_mul maxResistance position_percent) (Fin 100)),
        ''voltage'' := Num (Fin 0), ''current'' := Num (Fin 0), ''power'' := Num (Fin 0),
        ''temperature'' := Num (Fin 25), ''maxPower'' := Num (Fin (1 / 2)))\<rparr>"

definition Lamp_new :: "string \<Rightarrow> jsnum \<Rightarrow> jsnum \<Rightarrow> Component" where
  "Lamp_new i voltageRating powerRating =
     (let resistance = js_div (js_mul voltageRating voltageRating) powerRating
      in \<lparr>cid = i, ctype = LAMP,
          terminals = [createTerminal i ''t1'', createTerminal i ''t2''],
          properties = noProps(''voltageRating'' := Num voltageRating,
            ''powerRating'' := Num powerRating, ''resistance'' := Num resistance,
            ''voltage'' := Num (Fin 0), ''current'' := Num (Fin 0), ''power'' := Num (Fin 0),
            ''brightness'' := Num (Fin 0), ''broken'' := Bool False,
            ''maxPower'' := Num (js_mul powerRating (Fin (3 / 2))))\<rparr>)"

text \<open>\<open>ComponentFactory.createComponent\<close>; \<open>None\<close> is the \<open>null\<close> of the default case.\<close>

fun createComponent :: "string \<Rightarrow> ComponentType \<Rightarrow> Component option" where
  "createComponent i RESISTOR = Some (Resistor_new i (Fin 1000))"
| "createComponent i CAPACITOR = Some (Capacitor_new i (Fin (100 / 1000000)))"
| "createComponent i INDUCTOR = Some (Inductor_new i (Fin (1 / 1000)))"
| "createComponent i DIODE = Some (Diode_new i (Fin (7 / 10)))"
| "createComponent i LED = Some (LED_new i ''#ff0000'' (Fin 2))"
| "createComponent i FUSE = Some (Fuse_new i (Fin 1))"
| "createComponent i VOLTAGE_SOURCE = Some (VoltageSource_new i)"
| "createComponent i BATTERY = Some (Battery_new i (Fin 9) (Fin 500))"
| "createComponent i GROUND = Some (Ground_new i)"
| "createComponent i SWITCH = Some (Switch_new i False)"
| "createComponent i POTENTIOMETER = Some (Potentiometer_new i (Fin 10000) (Fin 50))"
| "createComponent i LAMP = Some (Lamp_new i (Fin 12) (Fin 60))"
| "createComponent i _ = None"

section \<open>Component state models\<close>

subsection \<open>Capacitor\<close>

text \<open>
  Every arithmetic result of \<open>Capacitor.simulate\<close> passes through \<open>dbl\<close>: a result beyond
  the range of binary64 is an infinity.
\<close>

definition Capacitor_simulate :: "jsnum \<Rightarrow> (string \<times> jsnum) list \<Rightarrow> Component \<Rightarrow> Component" where
  "Capacitor_simulate deltaTime nodeVoltages this =
     (if length (terminals this) < 2 then this
      else
        let vPos = readVoltage nodeVoltages (tid (terminals this ! 0));
            vNeg = readVoltage nodeVoltages (tid (terminals this ! 1));
            p = properties this;
            previousVoltage = toNum (js_or (p ''voltage'') (Num (Fin 0)));
            p = p(''voltage'' := Num (dbl (js_sub vPos vNeg)));
            dV = dbl (js_sub (toNum (p ''voltage'')) previousVoltage);
            cap = toNum (js_or (p ''capacitance'') (Num (Fin (100 / 1000000))));
            p = p(''current'' :=
                  Num (dbl (js_mul cap (dbl (js_div dV (js_max deltaTime (Fin (1 / 1000))))))));
            p = p(''charge'' := Num (dbl (js_mul cap (toNum (p ''voltage'')))));
            p = p(''energy'' := Num (dbl (js_mul (dbl (js_mul (Fin (1 / 2)) cap))
                   (dbl (js_mul (toNum (p ''voltage'')) (toNum (p ''voltage'')))))));
            p = p(''power'' := Num (dbl (js_mul (toNum (p ''voltage'')) (toNum (p ''current'')))))
        in this\<lparr>terminals := setTerminals vPos vNeg (toNum (p ''current'')) (terminals this),
                properties := p\<rparr>)"

subsection \<open>Fuse\<close>

definition Fuse_simulate :: "jsnum \<Rightarrow> (string \<times> jsnum) list \<Rightarrow> Component \<Rightarrow> Component" where
  "Fuse_simulate deltaTime nodeVoltages this =
     (if length (terminals this) < 2 then this
      else
        let v1 = readVoltage nodeVoltages (tid (terminals this ! 0));
            v2 = readVoltage nodeVoltages (tid (terminals this ! 1));
            p = properties this;
            p = p(''voltage'' := Num (js_sub v1 v2));
            p = p(''maxCurrent'' := p ''rating'');
            p = (if truthy (p ''blown'')
                 then p(''resistance'' := Num (Fin 1000000000), ''current'' := Num (Fin 0),
                        ''power'' := Num (Fin 0))
                 else
                   let p = p(''resistance'' := Num (Fin (1 / 100)));
                       p = p(''current'' :=
                             Num (js_div (toNum (p ''voltage'')) (toNum (p ''resistance''))));
                       p = p(''power'' :=
                             Num (js_abs (js_mul (toNum (p ''voltage'')) (toNum (p ''current'')))));
                       currentRatio = js_div (js_abs (toNum (p ''current''))) (toNum (p ''rating''))
                   in if js_gt currentRatio (Fin 1)
                      then
                        let p = p(''heatAccumulated'' :=
                                  Num (js_add (toNum (p ''heatAccumulated''))
                                         (js_mul (js_mul currentRatio currentRatio) deltaTime)));
                            blowThreshold = Fin 2
                        in if js_gt (toNum (p ''heatAccumulated'')) blowThreshold
                           then p(''blown'' := Bool True) else p
                      else p(''heatAccumulated'' :=
                               Num (js_max (Fin 0)
                                      (js_sub (toNum (p ''heatAccumulated''))
                                         (js_mul deltaTime (Fin (1 / 2)))))))
        in this\<lparr>terminals := setTerminals v1 v2 (toNum (p ''current'')) (terminals this),
                properties := p\<rparr>)"

text \<open>\<open>Fuse.replace\<close>, the external reset.\<close>

definition Fuse_replace :: "Component \<Rightarrow> Component" where
  "Fuse_replace this =
     this\<lparr>properties := (properties this)(''blown'' := Bool False,
                                             ''heatAccumulated'' := Num (Fin 0))\<rparr>"

subsection \<open>Lamp\<close>

definition Lamp_simulate :: "jsnum \<Rightarrow> (string \<times> jsnum) list \<Rightarrow> Component \<Rightarrow> Component" where
  "Lamp_simulate deltaTime nodeVoltages this =
     (if length (terminals this) < 2 then this
      else
        let v1 = readVoltage nodeVoltages (tid (terminals this ! 0));
            v2 = readVoltage nodeVoltages (tid (terminals this ! 1));
            p = properties this;
            p = p(''voltage'' := Num (js_sub v1 v2));
            targetR = js_div (js_mul (toNum (p ''voltageRating'')) (toNum (p ''voltageRating'')))
                        (toNum (p ''powerRating''));
            p = (if js_gt (js_abs (js_sub (toNum (p ''resistance'')) targetR)) (Fin (1 / 100))
                 then p(''resistance'' := Num targetR,
                        ''maxPower'' := Num (js_mul (toNum (p ''powerRating'')) (Fin (3 / 2))))
                 else p);
            p = (if truthy (p ''broken'')
                 then p(''resistance'' := Num (Fin 1000000000), ''current'' := Num (Fin 0),
                        ''power'' := Num (Fin 0), ''brightness'' := Num (Fin 0))
                 else
                   let p = p(''current'' :=
                             Num (js_div (toNum (p ''voltage'')) (toNum (p ''resistance''))));
                       p = p(''power'' :=
                             Num (js_abs (js_mul (toNum (p ''voltage'')) (toNum (p ''current'')))));
                       powerRatio = js_div (toNum (p ''power'')) (toNum (p ''powerRating''));
                       p = p(''brightness'' := Num (js_min (js_sqrt powerRatio) (Fin (3 / 2))))
                   in if js_gt (toNum (p ''power'')) (toNum (p ''maxPower''))
                      then p(''broken'' := Bool True) else p)
        in this\<lparr>terminals := setTerminals v1 v2 (toNum (p ''current'')) (terminals this),
                properties := p\<rparr>)"

subsection \<open>Battery\<close>

definition Battery_simulate :: "jsnum \<Rightarrow> (string \<times> jsnum) list \<Rightarrow> Component \<Rightarrow> Component" where
  "Battery_simulate deltaTime nodeVoltages this =
     (if length (terminals this) < 2 then this
      else
        let vPos = readVoltage nodeVoltages (tid (terminals this ! 0));
            vNeg = readVoltage nodeVoltages (tid (terminals this ! 1));
            p = properties this;
            p = p(''current'' :=
                  Num (js_div (js_sub (toNum (p ''voltage'')) (js_sub vPos vNeg))
                         (toNum (p ''internalResistance''))));
            p = p(''power'' := Num (js_abs (js_mul (js_sub vPos vNeg) (toNum (p ''current'')))));
            p = (if js_gt (toNum (p ''current'')) (Fin 0)
                 then
                   let chargeUsed = js_div (js_mul (js_mul (toNum (p ''current'')) deltaTime)
                                              (Fin 1000)) (Fin 3600);
                       p = p(''chargeRemaining'' :=
                             Num (js_max (Fin 0) (js_sub (toNum (p ''chargeRemaining'')) chargeUsed)));
                       p = p(''chargePercent'' :=
                             Num (js_mul (js_div (toNum (p ''chargeRemaining''))
                                            (toNum (p ''capacity''))) (Fin 100)));
                       depletionFactor = js_max (Fin (7 / 10))
                                           (js_div (toNum (p ''chargePercent'')) (Fin 100))
                   in p(''voltage'' := Num (js_mul (toNum (p ''voltage'')) depletionFactor))
                 else p)
        in this\<lparr>terminals := setTerminals vPos vNeg (toNum (p ''current'')) (terminals this),
                properties := p\<rparr>)"

subsection \<open>Voltage source\<close>

text \<open>
  \<open>VoltageSource.simulate\<close> reads the wall clock: \<open>performance.now()\<close>.  The reading (in
  milliseconds) is the explicit first argument \<open>now\<close> of the model.
\<close>

definition waveformOutput :: "jsnum \<Rightarrow> jsnum \<Rightarrow> WaveformConfig \<Rightarrow> jsnum" where
  "waveformOutput time v waveform =
     (case wtype waveform of
        DC \<Rightarrow> v
      | SINE \<Rightarrow>
          js_add (js_mul v (js_sin (js_add
                    (js_mul (js_mul (js_mul (Fin 2) (Fin pi)) (frequency waveform)) time)
                    (phase waveform))))
                 (offset waveform)
      | SQUARE \<Rightarrow>
          (let squarePhase = js_mod (js_add (js_mul (frequency waveform) time)
                                (js_div (phase waveform) (js_mul (Fin 2) (Fin pi)))) (Fin 1)
           in js_add (if js_lt squarePhase (dutyCycle waveform) then v else js_neg v)
                     (offset waveform))
      | PULSE \<Rightarrow>
          (let pulsePhase = js_mod (js_add (js_mul (frequency waveform) time)
                               (js_div (phase waveform) (js_mul (Fin 2) (Fin pi)))) (Fin 1)
           in js_add (if js_lt pulsePhase (dutyCycle waveform) then v else Fin 0)
                     (offset waveform))
      | TRIANGLE \<Rightarrow>
          (let triPhase = js_mod (js_add (js_mul (frequency waveform) time)
                             (js_div (phase waveform) (js_mul (Fin 2) (Fin pi)))) (Fin 1)
           in js_add (if js_lt triPhase (Fin (1 / 2))
                      then js_mul v (js_sub (js_mul (Fin 4) triPhase) (Fin 1))
                      else js_mul v (js_sub (Fin 3) (js_mul (Fin 4) triPhase)))
                     (offset waveform)))"

definition VoltageSource_simulate ::
  "jsnum \<Rightarrow> jsnum \<Rightarrow> (string \<times> jsnum) list \<Rightarrow> Component \<Rightarrow> Component" where
  "VoltageSource_simulate now deltaTime nodeVoltages this =
     (if length (terminals this) < 2 then this
      else
        let time = js_div now (Fin 1000);
            p = properties this;
            v = toNum (js_or (p ''voltage'') (Num (Fin 0)));
            outputVoltage = (case p ''waveform'' of
                               Wave waveform \<Rightarrow> waveformOutput time v waveform
                             | _ \<Rightarrow> Fin 0);
            p = p(''voltage'' := Num outputVoltage);
            ts = terminals this;
            ts = ts[0 := (ts ! 0)\<lparr>voltage := outputVoltage\<rparr>];
            ts = ts[1 := (ts ! 1)\<lparr>voltage := Fin 0\<rparr>];
            vPos = readVoltage nodeVoltages (tid (ts ! 0));
            vNeg = readVoltage nodeVoltages (tid (ts ! 1));
            p = p(''current'' := Num (js_mul (js_abs (js_sub vPos vNeg)) (Fin (1 / 10))));
            p = p(''maxPower'' :=
                  Num (js_mul (js_abs (toNum (p ''voltage'')))
                         (toNum (js_or (p ''maxCurrent'') (Num (Fin 1))))));
            p = p(''power'' := Num (js_abs (js_mul (toNum (p ''voltage'')) (toNum (p ''current'')))))
        in this\<lparr>terminals := ts, properties := p\<rparr>)"

subsection \<open>Ground\<close>

definition Ground_simulate :: "jsnum \<Rightarrow> (string \<times> jsnum) list \<Rightarrow> Component \<Rightarrow> Component" where
  "Ground_simulate deltaTime nodeVoltages this =
     (let this = this\<lparr>properties := (properties this)(''voltage'' := Num (Fin 0))\<rparr>
      in if length (terminals this) > 0
         then this\<lparr>terminals := (terminals this)[0 := (terminals this ! 0)\<lparr>voltage := Fin 0\<rparr>]\<rparr>
         else this)"

section \<open>Circuit solver\<close>

datatype error = TypeError

record SimulationResult =
  nodeVoltages :: "(string \<times> jsnum) list"
  componentCurrents :: "(string \<times> jsnum) list"
  componentVoltages :: "(string \<times> jsnum) list"
  wireCurrents :: "(string \<times> jsnum) list"
  wireVoltages :: "(string \<times> jsnum) list"

text \<open>The three maps that \<open>identifyNodes\<close> leaves in the solver object.\<close>

record NodeMaps =
  nodes :: "(string \<times> string list) list"
  terminalToNode :: "(string \<times> string) list"
  nodeIndex :: "(string \<times> int) list"

definition has :: "('k \<times> 'v) list \<Rightarrow> 'k \<Rightarrow> bool" where
  "has m k = (map_of m k \<noteq> None)"

subsection \<open>identifyNodes\<close>

text \<open>
  \<open>find\<close> with path compression.  The recursion follows the parent links, so it returns
  only if they lead to a root: a call that does not return has the value \<open>None\<close>.  Inside
  \<open>identifyNodes\<close> the argument is always a key of \<open>parent\<close>; a read of an absent key is
  given no result.
\<close>

partial_function (option) find_uf ::
  "(string \<times> string) list \<Rightarrow> string \<Rightarrow> (string \<times> (string \<times> string) list) option" where
  "find_uf parent i =
     (if map_of parent i = Some i then Some (i, parent)
      else case map_of parent i of
             None \<Rightarrow> None
           | Some p \<Rightarrow>
               Option.bind (find_uf parent p) (\<lambda>(root, parent'). Some (root, mapSet i root parent')))"

declare find_uf.simps [code]

definition union_uf ::
  "(string \<times> string) list \<Rightarrow> string \<Rightarrow> string \<Rightarrow> (string \<times> string) list option" where
  "union_uf parent i j =
     Option.bind (find_uf parent i) (\<lambda>(rootI, parent).
     Option.bind (find_uf parent j) (\<lambda>(rootJ, parent).
       Some (if rootI \<noteq> rootJ then mapSet rootI rootJ parent else parent)))"

text \<open>Initialize all terminals as their own sets.\<close>

definition initParent :: "Component list \<Rightarrow> (string \<times> string) list" where
  "initParent components =
     foldl (\<lambda>parent t. mapSet (tid t) (tid t) parent) [] (concat (map terminals components))"

text \<open>Union connected terminals via wires.\<close>

fun unionWires :: "Wire list \<Rightarrow> (string \<times> string) list \<Rightarrow> (string \<times> string) list option" where
  "unionWires [] parent = Some parent"
| "unionWires (w # ws) parent =
     (if has parent (fromTerminal w) \<and> has parent (toTerminal w)
      then Option.bind (union_uf parent (fromTerminal w) (toTerminal w)) (unionWires ws)
      else unionWires ws parent)"

text \<open>
  Build the nodes map: \<open>parent.forEach\<close> visits the keys in insertion order; \<open>find\<close> only
  overwrites values of existing keys, so the keys visited are those present at the start.
\<close>

fun buildNodes ::
  "string list \<Rightarrow> (string \<times> string) list \<times> (string \<times> string list) list \<times> (string \<times> string) list
     \<Rightarrow> ((string \<times> string) list \<times> (string \<times> string list) list \<times> (string \<times> string) list) option"
  where
  "buildNodes [] st = Some st"
| "buildNodes (terminalId # rest) (parent, nds, t2n) =
     Option.bind (find_uf parent terminalId) (\<lambda>(root, parent).
       let nds = (if \<not> has nds root then mapSet root [] nds else nds);
           nds = mapSet root (the (map_of nds root) @ [terminalId]) nds;
           t2n = mapSet terminalId root t2n
       in buildNodes rest (parent, nds, t2n))"

text \<open>
  The ground node: \<open>None\<close> is \<open>null\<close>.  Only a component of type \<open>VOLTAGE_SOURCE\<close> is
  looked for.
\<close>

definition groundNodeId :: "Component list \<Rightarrow> (string \<times> string) list \<Rightarrow> string option option" where
  "groundNodeId components parent =
     (case List.find (\<lambda>c. ctype c = VOLTAGE_SOURCE) components of
        None \<Rightarrow> Some None
      | Some vSource \<Rightarrow>
          (if 1 < length (terminals vSource)
           then map_option (\<lambda>(root, parent). Some root)
                  (find_uf parent (tid (terminals vSource ! 1)))
           else Some None))"

fun assignIndices :: "string list \<Rightarrow> (string \<times> int) list \<times> int \<Rightarrow> (string \<times> int) list \<times> int" where
  "assignIndices [] st = st"
| "assignIndices (i # ids) (nodeIdx, index) =
     (if map_of nodeIdx i \<noteq> Some (- 1)
      then assignIndices ids (mapSet i index nodeIdx, index + 1)
      else assignIndices ids (nodeIdx, index))"

definition identifyNodes :: "Component list \<Rightarrow> Wire list \<Rightarrow> NodeMaps option" where
  "identifyNodes components wires =
     Option.bind (unionWires wires (initParent components)) (\<lambda>parent.
     Option.bind (buildNodes (map fst parent) (parent, [], [])) (\<lambda>(parent, nds, t2n).
     Option.bind (groundNodeId components parent) (\<lambda>ground.
       let nodeIds = map fst nds;
           nodeIdx = (if ground \<noteq> None \<and> ground \<noteq> Some []
                      then mapSet (the ground) (- 1) []
                      else if length nodeIds > 0 then mapSet (nodeIds ! 0) (- 1) [] else [])
       in Some \<lparr>nodes = nds, terminalToNode = t2n,
                nodeIndex = fst (assignIndices nodeIds (nodeIdx, 0))\<rparr>)))"

subsection \<open>Roots of the parent map\<close>

text \<open>
  \<open>rootOf m k r\<close>: following the parent links from the key \<open>k\<close> leads to the root \<open>r\<close>,
  a key that is its own parent.  In a \<open>forest\<close> every key has a root, so that \<open>find\<close>
  returns on every key.
\<close>

inductive rootOf :: "(string \<rightharpoonup> string) \<Rightarrow> string \<Rightarrow> string \<Rightarrow> bool" for m where
  root: "m k = Some k \<Longrightarrow> rootOf m k k"
| link: "m k = Some v \<Longrightarrow> v \<noteq> k \<Longrightarrow> rootOf m v r \<Longrightarrow> rootOf m k r"

definition forest :: "(string \<times> string) list \<Rightarrow> bool" where
  "forest parent = (\<forall>k \<in> fst ` set parent. \<exists>r. rootOf (map_of parent) k r)"

text \<open>
  The state kept while the nodes are built: every terminal entered in the terminal map is
  entered under its root, and it is a member of the node of that root.
\<close>

definition placed ::
  "(string \<times> string) list \<Rightarrow> (string \<times> string list) list \<Rightarrow> (string \<times> string) list \<Rightarrow> bool" where
  "placed p nds t2n =
     (\<forall>t g. map_of t2n t = Some g
        \<longrightarrow> rootOf (map_of p) t g \<and> (\<exists>ms. map_of nds g = Some ms \<and> t \<in> set ms))"

subsection \<open>gaussianElimination\<close>

text \<open>
  The matrix is a list of rows.  \<open>solveMNA\<close> passes a square matrix and a right-hand side of
  the same size, so every index below is in range.
\<close>

definition matSet :: "jsnum list list \<Rightarrow> nat \<Rightarrow> nat \<Rightarrow> jsnum \<Rightarrow> jsnum list list" where
  "matSet A i j v = A[i := (A ! i)[j := v]]"

text \<open>Find pivot: the row of the first largest magnitude in column \<open>i\<close>, from row \<open>i\<close> down.\<close>

definition findPivot :: "jsnum list list \<Rightarrow> nat \<Rightarrow> nat \<Rightarrow> nat" where
  "findPivot A n i =
     snd (fold (\<lambda>k (maxEl, maxRow).
                  if js_gt (js_abs (A ! k ! i)) maxEl then (js_abs (A ! k ! i), k)
                  else (maxEl, maxRow))
            [i + 1..<n] (js_abs (A ! i ! i), i))"

definition swapRows :: "jsnum list list \<Rightarrow> nat \<Rightarrow> nat \<Rightarrow> nat \<Rightarrow> jsnum list list" where
  "swapRows A n maxRow i =
     fold (\<lambda>k A. let tmp = A ! maxRow ! k;
                     A = matSet A maxRow k (A ! i ! k)
                 in matSet A i k tmp)
       [i..<n] A"

definition swapRhs :: "jsnum list \<Rightarrow> nat \<Rightarrow> nat \<Rightarrow> jsnum list" where
  "swapRhs b maxRow i = (let tmp = b ! maxRow; b = b[maxRow := b ! i] in b[i := tmp])"

text \<open>Make triangular: row \<open>k\<close> below the pivot row \<open>i\<close>.\<close>

fun eliminateRow ::
  "nat \<Rightarrow> nat \<Rightarrow> nat \<Rightarrow> jsnum list list \<times> jsnum list \<Rightarrow> jsnum list list \<times> jsnum list" where
  "eliminateRow n i k (A, b) =
     (let c = js_div (js_neg (A ! k ! i)) (A ! i ! i);
          A = fold (\<lambda>j A. if i = j then matSet A k j (Fin 0)
                           else matSet A k j (js_add (A ! k ! j) (js_mul c (A ! i ! j))))
                [i..<n] A
      in (A, b[k := js_add (b ! k) (js_mul c (b ! i))]))"

fun eliminationStep ::
  "nat \<Rightarrow> nat \<Rightarrow> jsnum list list \<times> jsnum list \<Rightarrow> jsnum list list \<times> jsnum list" where
  "eliminationStep n i (A, b) =
     (let maxRow = findPivot A n i;
          A = swapRows A n maxRow i;
          b = swapRhs b maxRow i
      in fold (eliminateRow n i) [i + 1..<n] (A, b))"

definition forwardElimination ::
  "jsnum list list \<Rightarrow> jsnum list \<Rightarrow> jsnum list list \<times> jsnum list" where
  "forwardElimination A b = fold (eliminationStep (length A)) [0..<length A] (A, b)"

definition rowSum :: "jsnum list list \<Rightarrow> jsnum list \<Rightarrow> nat \<Rightarrow> nat \<Rightarrow> jsnum" where
  "rowSum A x n i = fold (\<lambda>j sum. js_add sum (js_mul (A ! i ! j) (x ! j))) [i + 1..<n] (Fin 0)"

text \<open>
  Back substitution, \<open>for (let i = n - 1; i >= 0; i--)\<close>: the counter of the model is
  \<open>i + 1\<close>.
\<close>

fun backSubstitution ::
  "jsnum list list \<Rightarrow> jsnum list \<Rightarrow> nat \<Rightarrow> nat \<Rightarrow> jsnum list \<Rightarrow> jsnum list" where
  "backSubstitution A b n 0 x = x"
| "backSubstitution A b n (Suc i) x =
     backSubstitution A b n i (x[i := js_div (js_sub (b ! i) (rowSum A x n i)) (A ! i ! i)])"

definition gaussianElimination :: "jsnum list list \<Rightarrow> jsnum list \<Rightarrow> jsnum list" where
  "gaussianElimination A b =
     (let n = length A;
          x = replicate n (Fin 0);
          (A, b) = forwardElimination A b
      in backSubstitution A b n n x)"

subsection \<open>solveMNA\<close>

text \<open>
  The resistance that the stamping loop and the result extraction both compute for the
  resistive kinds (the two places use the same expressions); \<open>None\<close> for every other kind.
\<close>

definition branchResistance :: "Component \<Rightarrow> jsnum option" where
  "branchResistance cmp =
     (let p = properties cmp in
      if ctype cmp = RESISTOR then Some (toNum (js_or (p ''value'') (Num (Fin 1000))))
      else if ctype cmp = LED then Some (Fin 50)
      else if ctype cmp = DIODE then Some (Fin 100)
      else if ctype cmp = CAPACITOR then Some (Fin 1000000000)
      else if ctype cmp = INDUCTOR then Some (Fin (1 / 100))
      else if ctype cmp = POTENTIOMETER
        then Some (js_max (toNum (js_or (p ''value'') (Num (Fin 1000)))) (Fin (1 / 100)))
      else if ctype cmp = SWITCH
        then Some (if truthy (p ''closed'') then Fin (1 / 100) else Fin 1000000000)
      else if ctype cmp = FUSE
        then Some (if truthy (p ''blown'') then Fin 1000000000 else Fin (1 / 100))
      else if ctype cmp = LAMP
        then Some (js_max (toNum (js_or (p ''resistance'') (Num (Fin 100)))) (Fin (1 / 100)))
      else None)"

definition isVoltageSource :: "Component \<Rightarrow> bool" where
  "isVoltageSource c = (ctype c = VOLTAGE_SOURCE \<or> ctype c = BATTERY \<or> ctype c = GROUND)"

text \<open>The matrix row of the node of a terminal: \<open>None\<close> is \<open>undefined\<close>.\<close>

definition rowOf :: "NodeMaps \<Rightarrow> string \<Rightarrow> int option" where
  "rowOf nm t = (case map_of (terminalToNode nm) t of
                   None \<Rightarrow> None
                 | Some n \<Rightarrow> map_of (nodeIndex nm) n)"

definition isRow :: "int option \<Rightarrow> bool" where
  "isRow i = (i \<noteq> None \<and> i \<noteq> Some (- 1))"

definition addG :: "NodeMaps \<Rightarrow> string \<Rightarrow> string \<Rightarrow> jsnum \<Rightarrow> jsnum list list \<Rightarrow> jsnum list list" where
  "addG nm n1 n2 conductance G =
     (let i = rowOf nm n1; j = rowOf nm n2;
          ri = nat (the i); rj = nat (the j);
          G = (if isRow i
               then let G = matSet G ri ri (js_add (G ! ri ! ri) conductance)
                    in if isRow j then matSet G ri rj (js_sub (G ! ri ! rj) conductance) else G
               else G)
      in if isRow j
         then let G = matSet G rj rj (js_add (G ! rj ! rj) conductance)
              in if isRow i then matSet G rj ri (js_sub (G ! rj ! ri) conductance) else G
         else G)"

text \<open>
  Stamp components.  Reading \<open>cmp.terminals[0].id\<close> or \<open>cmp.terminals[1].id\<close> of a
  component with fewer than two terminals throws a \<open>TypeError\<close>.
\<close>

fun stampComponents :: "NodeMaps \<Rightarrow> Component list \<Rightarrow> jsnum list list \<Rightarrow> error + jsnum list list" where
  "stampComponents nm [] G = Inr G"
| "stampComponents nm (cmp # cs) G =
     (case branchResistance cmp of
        None \<Rightarrow> stampComponents nm cs G
      | Some r \<Rightarrow>
          if length (terminals cmp) < 2 then Inl TypeError
          else stampComponents nm cs
                 (addG nm (tid (terminals cmp ! 0)) (tid (terminals cmp ! 1))
                    (js_div (Fin 1) r) G))"

text \<open>Stamp voltage sources; \<open>idx\<close> is the position in \<open>voltageSources\<close>.\<close>

fun stampVoltageSources ::
  "NodeMaps \<Rightarrow> nat \<Rightarrow> Component list \<Rightarrow> nat \<Rightarrow> jsnum list list \<times> jsnum list
     \<Rightarrow> error + jsnum list list \<times> jsnum list" where
  "stampVoltageSources nm numNodes [] idx GI = Inr GI"
| "stampVoltageSources nm numNodes (vs # rest) idx (G, I) =
     (let vIndex = numNodes + idx;
          v = toNum (js_or (properties vs ''voltage'') (Num (Fin 5)))
      in if length (terminals vs) < 2 then Inl TypeError
         else
           let posIdx = rowOf nm (tid (terminals vs ! 0));
               negIdx = rowOf nm (tid (terminals vs ! 1));
               G = (if isRow posIdx
                    then matSet (matSet G (nat (the posIdx)) vIndex (Fin 1))
                           vIndex (nat (the posIdx)) (Fin 1)
                    else G);
               G = (if isRow negIdx
                    then matSet (matSet G (nat (the negIdx)) vIndex (Fin (- 1)))
                           vIndex (nat (the negIdx)) (Fin (- 1))
                    else G)
           in stampVoltageSources nm numNodes rest (idx + 1) (G, I[vIndex := v]))"

text \<open>\<open>nodeVoltages.get(n) || 0\<close> for a node id that may be \<open>undefined\<close>.\<close>

definition voltageOfNode :: "(string \<times> jsnum) list \<Rightarrow> string option \<Rightarrow> jsnum" where
  "voltageOfNode nv n = (case n of None \<Rightarrow> Fin 0 | Some k \<Rightarrow> readVoltage nv k)"

fun findIndex :: "('a \<Rightarrow> bool) \<Rightarrow> 'a list \<Rightarrow> nat option" where
  "findIndex P [] = None"
| "findIndex P (x # xs) = (if P x then Some 0 else map_option Suc (findIndex P xs))"

text \<open>Calculate component values: the pair of \<open>componentCurrents\<close> and \<open>componentVoltages\<close>.\<close>

fun componentValues ::
  "NodeMaps \<Rightarrow> (string \<times> jsnum) list \<Rightarrow> jsnum list \<Rightarrow> nat \<Rightarrow> Component list \<Rightarrow> Component list
     \<Rightarrow> (string \<times> jsnum) list \<times> (string \<times> jsnum) list
     \<Rightarrow> error + (string \<times> jsnum) list \<times> (string \<times> jsnum) list" where
  "componentValues nm nv x numNodes voltageSources [] acc = Inr acc"
| "componentValues nm nv x numNodes voltageSources (cmp # cs) (currents, voltages) =
     (if length (terminals cmp) < 2 then Inl TypeError
      else
        let n1 = map_of (terminalToNode nm) (tid (terminals cmp ! 0));
            n2 = map_of (terminalToNode nm) (tid (terminals cmp ! 1));
            v1 = voltageOfNode nv n1;
            v2 = voltageOfNode nv n2;
            vDrop = js_sub v1 v2;
            voltages = mapSet (cid cmp) vDrop voltages;
            currents =
              (case branchResistance cmp of
                 Some r \<Rightarrow> mapSet (cid cmp) (js_div vDrop r) currents
               | None \<Rightarrow>
                   if isVoltageSource cmp
                   then (case findIndex (\<lambda>v. cid v = cid cmp) voltageSources of
                           Some vsIdx \<Rightarrow> mapSet (cid cmp) (x ! (numNodes + vsIdx)) currents
                         | None \<Rightarrow> currents)
                   else currents)
        in componentValues nm nv x numNodes voltageSources cs (currents, voltages))"

definition nonEmpty :: "string option \<Rightarrow> bool" where
  "nonEmpty n = (n \<noteq> None \<and> n \<noteq> Some [])"

text \<open>Calculate wire currents and voltages.\<close>

definition wireValues ::
  "NodeMaps \<Rightarrow> (string \<times> jsnum) list \<Rightarrow> (string \<times> jsnum) list \<Rightarrow> Component list \<Rightarrow> Wire list
     \<Rightarrow> (string \<times> jsnum) list \<times> (string \<times> jsnum) list" where
  "wireValues nm nv currents components wires =
     foldl (\<lambda>(wCurrents, wVoltages) wire.
              let fromNode = map_of (terminalToNode nm) (fromTerminal wire);
                  toNode = map_of (terminalToNode nm) (toTerminal wire)
              in if nonEmpty fromNode \<and> nonEmpty toNode
                 then
                   let vFrom = voltageOfNode nv fromNode;
                       vTo = voltageOfNode nv toNode;
                       wVoltages = mapSet (wid wire) (js_div (js_add vFrom vTo) (Fin 2)) wVoltages;
                       wireCurrent =
                         foldl (\<lambda>wc cmp.
                                  foldl (\<lambda>wc terminal.
                                           if tid terminal = fromTerminal wire
                                           then readVoltage currents (cid cmp) else wc)
                                    wc (terminals cmp))
                           (Fin 0) components
                   in (mapSet (wid wire) (js_abs wireCurrent) wCurrents, wVoltages)
                 else (wCurrents, wVoltages))
       ([], []) wires"

definition solveMNA :: "NodeMaps \<Rightarrow> Component list \<Rightarrow> Wire list \<Rightarrow> error + SimulationResult" where
  "solveMNA nm components wires =
     (let numNodes = length (nodeIndex nm) - (if - 1 \<in> set (map snd (nodeIndex nm)) then 1 else 0);
          voltageSources = filter isVoltageSource components;
          numVSources = length voltageSources;
          sz = numNodes + numVSources;
          G = replicate sz (replicate sz (Fin 0));
          I = replicate sz (Fin 0)
      in case stampComponents nm components G of
           Inl e \<Rightarrow> Inl e
         | Inr G \<Rightarrow>
            (case stampVoltageSources nm numNodes voltageSources 0 (G, I) of
               Inl e \<Rightarrow> Inl e
             | Inr (G, I) \<Rightarrow>
                 let x = gaussianElimination G I;
                     nv = foldl (\<lambda>nv (nodeId, idx).
                                   if idx = - 1 then mapSet nodeId (Fin 0) nv
                                   else mapSet nodeId (x ! nat idx) nv)
                            [] (nodeIndex nm)
                 in case componentValues nm nv x numNodes voltageSources components ([], []) of
                      Inl e \<Rightarrow> Inl e
                    | Inr (currents, voltages) \<Rightarrow>
                        let (wCurrents, wVoltages) = wireValues nm nv currents components wires
                        in Inr \<lparr>nodeVoltages = nv, componentCurrents = currents,
                                componentVoltages = voltages, wireCurrents = wCurrents,
                                wireVoltages = wVoltages\<rparr>))"

text \<open>\<open>solve\<close>: \<open>None\<close> if \<open>identifyNodes\<close> does not return.\<close>

definition solve :: "Component list \<Rightarrow> Wire list \<Rightarrow> (error + SimulationResult) option" where
  "solve components wires =
     map_option (\<lambda>nm. solveMNA nm components wires) (identifyNodes components wires)"

section \<open>Simulation step of the store\<close>

datatype ErrorSeverity = WARNING | ERROR | CRITICAL

record CircuitError =
  eid :: string
  severity :: ErrorSeverity
  message :: string
  componentIds :: "string list"
  timestamp :: jsnum
  stopSimulation :: bool

record SimulationState =
  running :: bool
  time :: jsnum
  timeStep :: jsnum
  speed :: jsnum
  errors :: "CircuitError list"

record StoreState =
  components :: "Component list"
  wires :: "Wire list"
  simulation :: SimulationState

text \<open>
  \<open>stepSimulation\<close> calls \<open>simulate\<close> and \<open>checkErrors\<close> on a component only if the object
  has such a method.  The methods of an object are a parameter of the model: \<open>None\<close> is an
  absent method, and a present method returns normally.
\<close>

record Methods =
  simulate :: "(jsnum \<Rightarrow> (string \<times> jsnum) list \<Rightarrow> Component \<Rightarrow> Component) option"
  checkErrors :: "(Component \<Rightarrow> CircuitError list) option"

text \<open>
  What the catch block reads from outside the store: a fresh identifier (\<open>uuidv4()\<close>), the
  clock (\<open>Date.now()\<close>) and the text of the thrown error (\<open>error.message\<close>).
\<close>

record Env =
  uuid :: string
  dateNow :: jsnum
  errorText :: "error \<Rightarrow> string"

text \<open>Update component states from the solver result.\<close>

definition applyResult :: "SimulationResult \<Rightarrow> Component \<Rightarrow> Component" where
  "applyResult result cmp =
     (let v = mapGet (componentVoltages result) (cid cmp);
          i = mapGet (componentCurrents result) (cid cmp);
          p = properties cmp;
          p = (if v \<noteq> Undefined then p(''voltage'' := v) else p);
          p = (if i \<noteq> Undefined then p(''current'' := i) else p);
          p = (if v \<noteq> Undefined \<and> i \<noteq> Undefined
               then p(''power'' := Num (js_abs (js_mul (toNum v) (toNum i)))) else p)
      in cmp\<lparr>properties := p\<rparr>)"

text \<open>Update wire states.\<close>

definition applyWireResult :: "SimulationResult \<Rightarrow> Wire \<Rightarrow> Wire" where
  "applyWireResult result wire =
     (let i = map_of (wireCurrents result) (wid wire);
          v = map_of (wireVoltages result) (wid wire);
          wire = (case i of Some c \<Rightarrow> wire\<lparr>wcurrent := c\<rparr> | None \<Rightarrow> wire)
      in case v of Some u \<Rightarrow> wire\<lparr>wvoltage := u\<rparr> | None \<Rightarrow> wire)"

text \<open>
  One error returned by \<open>checkErrors\<close>: pushed unless an error with the same message or id
  is already in the list; the stopping flag is raised either way.
\<close>

definition reportError :: "CircuitError list \<times> bool \<Rightarrow> CircuitError \<Rightarrow> CircuitError list \<times> bool" where
  "reportError st err =
     (let errs = fst st;
          hasStoppingError = snd st;
          exists = (\<exists>e \<in> set errs. message e = message err \<or> eid e = eid err);
          errs = (if \<not> exists then errs @ [err] else errs)
      in (errs, (if stopSimulation err then True else hasStoppingError)))"

text \<open>
  Check for component errors: the loop calls \<open>simulate\<close> on the component, then
  \<open>checkErrors\<close>, and goes on to the next component.
\<close>

text \<open>\<open>if (compInstance.simulate) compInstance.simulate(...)\<close>\<close>

definition callSimulate ::
  "(Component \<Rightarrow> Methods) \<Rightarrow> jsnum \<Rightarrow> (string \<times> jsnum) list \<Rightarrow> Component \<Rightarrow> Component" where
  "callSimulate M dt nv cmp = (case simulate (M cmp) of Some f \<Rightarrow> f dt nv cmp | None \<Rightarrow> cmp)"

text \<open>The errors that \<open>compInstance.checkErrors()\<close> returns, none if the method is absent.\<close>

definition callCheckErrors :: "(Component \<Rightarrow> Methods) \<Rightarrow> Component \<Rightarrow> CircuitError list" where
  "callCheckErrors M cmp = (case checkErrors (M cmp) of Some chk \<Rightarrow> chk cmp | None \<Rightarrow> [])"

fun componentLoop ::
  "(Component \<Rightarrow> Methods) \<Rightarrow> jsnum \<Rightarrow> (string \<times> jsnum) list \<Rightarrow> Component list
     \<Rightarrow> CircuitError list \<times> bool \<Rightarrow> Component list \<times> CircuitError list \<times> bool" where
  "componentLoop M dt nv [] st = ([], fst st, snd st)"
| "componentLoop M dt nv (cmp # cs) st =
     (let cmp = callSimulate M dt nv cmp;
          st = foldl reportError st (callCheckErrors M cmp);
          rest = componentLoop M dt nv cs st
      in (cmp # fst rest, snd rest))"

definition stepSimulation ::
  "(Component \<Rightarrow> Methods) \<Rightarrow> Env \<Rightarrow> jsnum \<Rightarrow> StoreState \<Rightarrow> StoreState option" where
  "stepSimulation M env deltaTime state =
     (if \<not> running (simulation state) then Some state
      else
        let sim = simulation state;
            sim = sim\<lparr>time := js_add (time sim) (js_mul deltaTime (speed sim))\<rparr>
        in case solve (components state) (wires state) of
             None \<Rightarrow> None
           | Some (Inl e) \<Rightarrow>
               Some (state\<lparr>simulation :=
                  (if errors sim = []
                   then sim\<lparr>errors := [\<lparr>eid = uuid env, severity = ERROR,
                                         message = ''Simulation failed: '' @ errorText env e,
                                         componentIds = [], timestamp = dateNow env,
                                         stopSimulation = True\<rparr>],
                            running := False\<rparr>
                   else sim)\<rparr>)
           | Some (Inr result) \<Rightarrow>
               let cs = map (applyResult result) (components state);
                   ws = map (applyWireResult result) (wires state);
                   looped = componentLoop M (js_mul deltaTime (speed sim)) (nodeVoltages result)
                              cs (errors sim, False);
                   cs = fst looped;
                   errs = fst (snd looped);
                   hasStoppingError = snd (snd looped);
                   sim = sim\<lparr>errors := errs\<rparr>;
                   sim = (if hasStoppingError then sim\<lparr>running := False\<rparr> else sim);
                   sim = (if \<not> hasStoppingError \<and> length (errors sim) > 0
                          then sim\<lparr>errors := filter stopSimulation (errors sim)\<rparr> else sim)
               in Some \<lparr>components = cs, wires = ws, simulation = sim\<rparr>)"

text \<open>
  The \<open>checkErrors\<close> methods of the fuse, the lamp and the battery.  The formatting of
  numbers inside the messages (\<open>toStr\<close> for a template literal, \<open>toFixed\<close> for
  \<open>toFixed(digits)\<close>) and the clock \<open>Date.now()\<close> are parameters.
\<close>

definition Fuse_checkErrors :: "(jsval \<Rightarrow> string) \<Rightarrow> jsnum \<Rightarrow> Component \<Rightarrow> CircuitError list" where
  "Fuse_checkErrors toStr now this =
     (if truthy (properties this ''blown'')
      then [\<lparr>eid = cid this @ ''-blown'', severity = ERROR,
             message = ''Fuse blown! Overcurrent protection activated (rated ''
                         @ toStr (properties this ''rating'') @ ''A)'',
             componentIds = [cid this], timestamp = now, stopSimulation = True\<rparr>]
      else [])"

definition Lamp_checkErrors ::
  "(nat \<Rightarrow> jsval \<Rightarrow> string) \<Rightarrow> jsnum \<Rightarrow> Component \<Rightarrow> CircuitError list" where
  "Lamp_checkErrors toFixed now this =
     (if truthy (properties this ''broken'')
      then [\<lparr>eid = cid this @ ''-broken'', severity = ERROR,
             message = ''Lamp burned out! (Exceeded ''
                         @ toFixed 1 (properties this ''maxPower'') @ ''W)'',
             componentIds = [cid this], timestamp = now, stopSimulation = True\<rparr>]
      else [])"

definition Battery_checkErrors ::
  "(nat \<Rightarrow> jsval \<Rightarrow> string) \<Rightarrow> jsnum \<Rightarrow> Component \<Rightarrow> CircuitError list" where
  "Battery_checkErrors toFixed now this =
     (let p = properties this;
          errs = (if js_lt (toNum (js_or (p ''chargePercent'') (Num (Fin 0)))) (Fin 5)
                  then [\<lparr>eid = cid this @ ''-depleted'', severity = ERROR,
                         message = ''Battery depleted ('' @ toFixed 1 (p ''chargePercent'')
                                     @ ''% remaining)'',
                         componentIds = [cid this], timestamp = now, stopSimulation = True\<rparr>]
                  else [])
      in if js_gt (js_abs (toNum (js_or (p ''current'') (Num (Fin 0)))))
                  (toNum (js_or (p ''maxCurrent'') (Num (Fin 5))))
         then errs @
              [\<lparr>eid = cid this @ ''-overcurrent'', severity = CRITICAL,
                message = ''DANGER! Battery overcurrent (''
                            @ toFixed 2 (Num (js_abs (toNum (js_or (p ''current'') (Num (Fin 0))))))
                            @ ''A)! Risk of explosion!'',
                componentIds = [cid this], timestamp = now, stopSimulation = True\<rparr>]
         else errs)"

text \<open>
  Objects that carry the methods of their class, for the three kinds above; an object of
  another kind carries none here.
\<close>

definition classMethods ::
  "(jsval \<Rightarrow> string) \<Rightarrow> (nat \<Rightarrow> jsval \<Rightarrow> string) \<Rightarrow> jsnum \<Rightarrow> Component \<Rightarrow> Methods" where
  "classMethods toStr toFixed now cmp =
     (if ctype cmp = FUSE
      then \<lparr>simulate = Some Fuse_simulate, checkErrors = Some (Fuse_checkErrors toStr now)\<rparr>
      else if ctype cmp = LAMP
      then \<lparr>simulate = Some Lamp_simulate, checkErrors = Some (Lamp_checkErrors toFixed now)\<rparr>
      else if ctype cmp = BATTERY
      then \<lparr>simulate = Some Battery_simulate,
            checkErrors = Some (Battery_checkErrors toFixed now)\<rparr>
      else \<lparr>simulate = None, checkErrors = None\<rparr>)"

section \<open>Example inputs\<close>

text \<open>A 1 A fuse and the voltages that drive 3 A through its 0.01 Ohm.\<close>

definition fuse1 :: Component where
  "fuse1 = Fuse_new ''F1'' (Fin 1)"

definition fuse1_load :: "(string \<times> jsnum) list" where
  "fuse1_load = [(''F1-in'', Fin (3 / 100)), (''F1-out'', Fin 0)]"

definition fuse1_blown :: Component where
  "fuse1_blown = fuse1\<lparr>properties := (properties fuse1)(''blown'' := Bool True)\<rparr>"

text \<open>A 12 V, 60 W lamp, and 24 V across it.\<close>

definition lamp1 :: Component where
  "lamp1 = Lamp_new ''L1'' (Fin 12) (Fin 60)"

definition lamp1_load :: "(string \<times> jsnum) list" where
  "lamp1_load = [(''L1-t1'', Fin 24), (''L1-t2'', Fin 0)]"

definition lamp1_broken :: Component where
  "lamp1_broken = lamp1\<lparr>properties := (properties lamp1)(''broken'' := Bool True)\<rparr>"

text \<open>A fresh 9 V, 500 mAh battery that delivers 1 A.\<close>

definition battery9 :: Component where
  "battery9 = Battery_new ''B1'' (Fin 9) (Fin 500)"

definition battery9_load :: "(string \<times> jsnum) list" where
  "battery9_load = [(''B1-positive'', Fin (89 / 10)), (''B1-negative'', Fin 0)]"

text \<open>A 5 V source with a 1 Hz square wave of duty cycle one half.\<close>

definition squareSource :: Component where
  "squareSource = (VoltageSource_new ''V1'')\<lparr>properties :=
      (properties (VoltageSource_new ''V1''))(''waveform'' :=
         Wave \<lparr>wtype = SQUARE, frequency = Fin 1, dutyCycle = Fin (1 / 2),
               phase = Fin 0, offset = Fin 0\<rparr>)\<rparr>"

text \<open>A capacitor of 100 microfarad and 5 V across it.\<close>

definition cap1 :: Component where
  "cap1 = Capacitor_new ''C1'' (Fin (100 / 1000000))"

definition cap1_load :: "(string \<times> jsnum) list" where
  "cap1_load = [(''C1-positive'', Fin 5), (''C1-negative'', Fin 0)]"

text \<open>Finite node voltages \<open>1e308\<close> and \<open>-1e308\<close>.\<close>

definition cap1_extreme :: "(string \<times> jsnum) list" where
  "cap1_extreme = [(''C1-positive'', Fin (10 ^ 308)), (''C1-negative'', Fin (- (10 ^ 308)))]"

text \<open>
  A DC source of voltage \<open>V\<close> and a resistor of resistance \<open>R\<close> wired across it: positive
  terminal to the first terminal of the resistor, second terminal of the resistor to the
  negative terminal.
\<close>

definition dcSource :: "real \<Rightarrow> Component" where
  "dcSource V = (VoltageSource_new ''V1'')\<lparr>properties :=
      (properties (VoltageSource_new ''V1''))(''voltage'' := Num (Fin V))\<rparr>"

definition wire1 :: Wire where
  "wire1 = \<lparr>wid = ''w1'', fromTerminal = ''V1-positive'', toTerminal = ''R1-terminal1'',
            wcurrent = Fin 0, wvoltage = Fin 0\<rparr>"

definition wire2 :: Wire where
  "wire2 = \<lparr>wid = ''w2'', fromTerminal = ''R1-terminal2'', toTerminal = ''V1-negative'',
            wcurrent = Fin 0, wvoltage = Fin 0\<rparr>"

definition resistorCircuit :: "real \<Rightarrow> real \<Rightarrow> Component list" where
  "resistorCircuit V R = [dcSource V, Resistor_new ''R1'' (Fin R)]"

definition resistorCircuit_maps :: NodeMaps where
  "resistorCircuit_maps =
     \<lparr>nodes = [(''R1-terminal1'', [''V1-positive'', ''R1-terminal1'']),
               (''V1-negative'', [''V1-negative'', ''R1-terminal2''])],
      terminalToNode = [(''V1-positive'', ''R1-terminal1''), (''V1-negative'', ''V1-negative''),
                        (''R1-terminal1'', ''R1-terminal1''), (''R1-terminal2'', ''V1-negative'')],
      nodeIndex = [(''V1-negative'', - 1), (''R1-terminal1'', 0)]\<rparr>"

text \<open>Two resistors and no wire: no node of the second resistor has a path to ground.\<close>

definition floating :: "Component list" where
  "floating = [Resistor_new ''R1'' (Fin 1000), Resistor_new ''R2'' (Fin 1000)]"

definition floating_maps :: NodeMaps where
  "floating_maps =
     \<lparr>nodes = [(''R1-terminal1'', [''R1-terminal1'']), (''R1-terminal2'', [''R1-terminal2'']),
               (''R2-terminal1'', [''R2-terminal1'']), (''R2-terminal2'', [''R2-terminal2''])],
      terminalToNode = [(''R1-terminal1'', ''R1-terminal1''), (''R1-terminal2'', ''R1-terminal2''),
                        (''R2-terminal1'', ''R2-terminal1''), (''R2-terminal2'', ''R2-terminal2'')],
      nodeIndex = [(''R1-terminal1'', - 1), (''R1-terminal2'', 0),
                   (''R2-terminal1'', 1), (''R2-terminal2'', 2)]\<rparr>"

text \<open>A battery across a resistor, and no voltage source.\<close>

definition batteryCircuit :: "Component list" where
  "batteryCircuit = [Resistor_new ''R1'' (Fin 1000), Battery_new ''B1'' (Fin 9) (Fin 500)]"

definition wire7 :: Wire where
  "wire7 = \<lparr>wid = ''w7'', fromTerminal = ''B1-positive'', toTerminal = ''R1-terminal1'',
            wcurrent = Fin 0, wvoltage = Fin 0\<rparr>"

definition wire8 :: Wire where
  "wire8 = \<lparr>wid = ''w8'', fromTerminal = ''R1-terminal2'', toTerminal = ''B1-negative'',
            wcurrent = Fin 0, wvoltage = Fin 0\<rparr>"

text \<open>
  A store whose run is on: a 12 V source across the lamp, with the blown fuse in parallel.
  The fuse comes first in the component list, the lamp after it.
\<close>

definition wire3 :: Wire where
  "wire3 = \<lparr>wid = ''w3'', fromTerminal = ''V1-positive'', toTerminal = ''L1-t1'',
            wcurrent = Fin 0, wvoltage = Fin 0\<rparr>"

definition wire4 :: Wire where
  "wire4 = \<lparr>wid = ''w4'', fromTerminal = ''F1-in'', toTerminal = ''L1-t1'',
            wcurrent = Fin 0, wvoltage = Fin 0\<rparr>"

definition wire5 :: Wire where
  "wire5 = \<lparr>wid = ''w5'', fromTerminal = ''V1-negative'', toTerminal = ''L1-t2'',
            wcurrent = Fin 0, wvoltage = Fin 0\<rparr>"

definition wire6 :: Wire where
  "wire6 = \<lparr>wid = ''w6'', fromTerminal = ''F1-out'', toTerminal = ''L1-t2'',
            wcurrent = Fin 0, wvoltage = Fin 0\<rparr>"

definition runningSimulation :: SimulationState where
  "runningSimulation =
     \<lparr>running = True, time = Fin 0, timeStep = Fin (1 / 1000), speed = Fin 1, errors = []\<rparr>"

definition haltingStore :: StoreState where
  "haltingStore =
     \<lparr>components = [fuse1_blown, lamp1, dcSource 12],
      wires = [wire3, wire4, wire5, wire6],
      simulation = runningSimulation\<rparr>"

definition haltingStore_maps :: NodeMaps where
  "haltingStore_maps =
     \<lparr>nodes = [(''L1-t1'', [''F1-in'', ''L1-t1'', ''V1-positive'']),
               (''L1-t2'', [''F1-out'', ''L1-t2'', ''V1-negative''])],
      terminalToNode = [(''F1-in'', ''L1-t1''), (''F1-out'', ''L1-t2''),
                        (''L1-t1'', ''L1-t1''), (''L1-t2'', ''L1-t2''),
                        (''V1-positive'', ''L1-t1''), (''V1-negative'', ''L1-t2'')],
      nodeIndex = [(''L1-t2'', - 1), (''L1-t1'', 0)]\<rparr>"

definition haltingStore_result :: SimulationResult where
  "haltingStore_result =
     \<lparr>nodeVoltages = [(''L1-t2'', Fin 0), (''L1-t1'', Fin 12)],
      componentCurrents = [(''F1'', Fin (3 / 250000000)), (''L1'', Fin 5),
                           (''V1'', Fin (- (1250000003 / 250000000)))],
      componentVoltages = [(''F1'', Fin 12), (''L1'', Fin 12), (''V1'', Fin 12)],
      wireCurrents = [(''w3'', Fin (1250000003 / 250000000)), (''w4'', Fin (3 / 250000000)),
                      (''w5'', Fin (1250000003 / 250000000)), (''w6'', Fin (3 / 250000000))],
      wireVoltages = [(''w3'', Fin 12), (''w4'', Fin 12), (''w5'', Fin 0), (''w6'', Fin 0)]\<rparr>"

text \<open>A store whose run is on and whose solve throws: a ground reference and the battery.\<close>

definition failingStore :: StoreState where
  "failingStore =
     \<lparr>components = [Ground_new ''G1'', battery9], wires = [], simulation = runningSimulation\<rparr>"

definition failingStore_maps :: NodeMaps where
  "failingStore_maps =
     \<lparr>nodes = [(''G1-ground'', [''G1-ground'']), (''B1-positive'', [''B1-positive'']),
               (''B1-negative'', [''B1-negative''])],
      terminalToNode = [(''G1-ground'', ''G1-ground''), (''B1-positive'', ''B1-positive''),
                        (''B1-negative'', ''B1-negative'')],
      nodeIndex = [(''G1-ground'', - 1), (''B1-positive'', 0), (''B1-negative'', 1)]\<rparr>"

text \<open>Formatters that print nothing, and the surroundings of the catch block.\<close>

definition noStr :: "jsval \<Rightarrow> string" where
  "noStr v = []"

definition noFixed :: "nat \<Rightarrow> jsval \<Rightarrow> string" where
  "noFixed digits v = []"

definition env0 :: Env where
  "env0 = \<lparr>uuid = ''e1'', dateNow = Fin 0, errorText = (\<lambda>e. ''TypeError'')\<rparr>"

section \<open>Properties\<close>

subsection \<open>Evaluation lemmas\<close>

lemma js_or_num_zero [simp]: "toNum (js_or (Num (Fin x)) (Num (Fin 0))) = Fin x"
  by (simp add: js_or_def)

lemma js_max_fin [simp]: "js_max (Fin x) (Fin y) = Fin (max x y)"
  by (simp add: js_max_def max_def)

lemma js_min_fin [simp]: "js_min (Fin x) (Fin y) = Fin (min x y)"
  by (simp add: js_min_def min_def)

lemma js_sub_fin [simp]: "js_sub (Fin x) (Fin y) = Fin (x - y)"
  by (simp add: js_sub_def)

lemma js_abs_fin_nonneg: "js_abs x = Fin P \<Longrightarrow> 0 \<le> P"
  by (cases x) auto

lemma js_div_zero_not_finite: "\<not> isFinite (js_div y (Fin 0))"
  by (cases y) auto

lemma setTerminals_length [simp]: "length (setTerminals a b i ts) = length ts"
  by (simp add: setTerminals_def Let_def)

lemmas constructor_defs =
  Resistor_new_def Capacitor_new_def Inductor_new_def Diode_new_def LED_new_def Fuse_new_def
  VoltageSource_new_def Battery_new_def Ground_new_def Switch_new_def Potentiometer_new_def
  Lamp_new_def createTerminal_def noProps_def

lemmas read_defs = readVoltage_def mapGet_def js_or_def

text \<open>Congruence rules that make the simplifier evaluate arguments before bodies.\<close>

lemma let_weak_cong: "s = t \<Longrightarrow> Let s f = Let t f"
  by simp

lemma fold_weak_cong: "xs = ys \<Longrightarrow> a = b \<Longrightarrow> fold f xs a = fold f ys b"
  by simp

lemmas elimination_defs =
  gaussianElimination_def rowSum_def forwardElimination_def findPivot_def swapRows_def
  swapRhs_def matSet_def upt_rec[of 0] upt_rec[of 1] upt_rec[of 2] upt_rec[of 3]
  numeral_2_eq_2 numeral_3_eq_3 Let_def js_sub_def

lemmas solveMNA_defs =
  solveMNA_def isVoltageSource_def branchResistance_def addG_def rowOf_def isRow_def matSet_def
  voltageOfNode_def wireValues_def nonEmpty_def Let_def

subsection \<open>Capacitor\<close>

lemma dbl_in_range: "\<bar>x\<bar> \<le> maxDouble \<Longrightarrow> dbl (Fin x) = Fin x"
proof -
  assume a: "\<bar>x\<bar> \<le> maxDouble"
  have "(0::real) < 2 ^ 971" by simp
  with a have "x < 2 ^ 1024" and "- (2 ^ 1024) < x"
    unfolding maxDouble_def by linarith+
  then show ?thesis by (simp add: dbl_def)
qed

text \<open>The current that a tick computes, as an expression of what the tick reads.\<close>

lemma Capacitor_current:
  assumes "2 \<le> length (terminals this)"
  shows "properties (Capacitor_simulate dt nv this) ''current''
     = Num (dbl (js_mul (toNum (js_or (properties this ''capacitance'') (Num (Fin (100 / 1000000)))))
         (dbl (js_div
            (dbl (js_sub (dbl (js_sub (readVoltage nv (tid (terminals this ! 0)))
                                      (readVoltage nv (tid (terminals this ! 1)))))
                         (toNum (js_or (properties this ''voltage'') (Num (Fin 0))))))
            (js_max dt (Fin (1 / 1000)))))))"
  using assms by (simp add: Capacitor_simulate_def Let_def)

lemma cap1_reads:
  "2 \<le> length (terminals cap1)"
  "properties cap1 ''voltage'' = Num (Fin 0)"
  "properties cap1 ''capacitance'' = Num (Fin (100 / 1000000))"
  "readVoltage cap1_load (tid (terminals cap1 ! 0)) = Fin 5"
  "readVoltage cap1_load (tid (terminals cap1 ! 1)) = Fin 0"
  "readVoltage cap1_extreme (tid (terminals cap1 ! 0)) = Fin (10 ^ 308)"
  "readVoltage cap1_extreme (tid (terminals cap1 ! 1)) = Fin (- (10 ^ 308))"
  by (simp_all add: cap1_def cap1_load_def cap1_extreme_def constructor_defs read_defs)

text \<open>
  C10, as stated, fails.  With the finite node voltages \<open>1e308\<close> and \<open>-1e308\<close> (and a finite
  positive \<open>deltaTime\<close>, a finite previous voltage and capacitance) the difference of the
  node voltages overflows, and the computed current is \<open>Infinity\<close>.  And with the node
  voltages 5 V and 0 V, a \<open>deltaTime\<close> that is \<open>NaN\<close> passes through \<open>Math.max\<close>, and the
  computed current is \<open>NaN\<close>.
\<close>

theorem capacitor_current_not_finite:
  "readVoltage cap1_extreme (tid (terminals cap1 ! 0)) = Fin (10 ^ 308)
   \<and> readVoltage cap1_extreme (tid (terminals cap1 ! 1)) = Fin (- (10 ^ 308))
   \<and> properties (Capacitor_simulate (Fin (1 / 1000)) cap1_extreme cap1) ''current'' = Num PInf
   \<and> \<not> isFinite (toNum (properties (Capacitor_simulate (Fin (1 / 1000)) cap1_extreme cap1) ''current''))
   \<and> readVoltage cap1_load (tid (terminals cap1 ! 0)) = Fin 5
   \<and> readVoltage cap1_load (tid (terminals cap1 ! 1)) = Fin 0
   \<and> properties (Capacitor_simulate NaN cap1_load cap1) ''current'' = Num NaN"
proof -
  have 1: "dbl (js_sub (Fin (10 ^ 308)) (Fin (- (10 ^ 308)))) = PInf"
    by (simp add: dbl_def)
  have 2: "dbl (js_sub PInf (toNum (js_or (Num (Fin 0)) (Num (Fin 0))))) = PInf"
    by (simp add: js_sub_def dbl_def)
  have 3: "dbl (js_div PInf (js_max (Fin (1 / 1000)) (Fin (1 / 1000)))) = PInf"
    by (simp add: dbl_def)
  have 4: "dbl (js_mul (toNum (js_or (Num (Fin (100 / 1000000))) (Num (Fin (100 / 1000000))))) PInf)
             = PInf"
    by (simp add: dbl_def js_or_def)
  have cur: "properties (Capacitor_simulate (Fin (1 / 1000)) cap1_extreme cap1) ''current'' = Num PInf"
    by (simp only: Capacitor_current [OF cap1_reads(1)] cap1_reads 1 2 3 4)
  then have nf: "\<not> isFinite (toNum (properties (Capacitor_simulate (Fin (1 / 1000)) cap1_extreme cap1)
                                   ''current''))"
    by simp
  have 5: "js_max NaN (Fin (1 / 1000)) = NaN" by (simp add: js_max_def)
  have 6: "dbl (js_div x NaN) = NaN" for x by (cases x) (simp_all add: dbl_def)
  have 7: "dbl (js_mul x NaN) = NaN" for x by (cases x) (simp_all add: dbl_def)
  have nan: "properties (Capacitor_simulate NaN cap1_load cap1) ''current'' = Num NaN"
    by (simp only: Capacitor_current [OF cap1_reads(1)] 5 6 7)
  show ?thesis
    by (intro conjI cap1_reads(6) cap1_reads(7) cur nf cap1_reads(4) cap1_reads(5) nan)
qed

text \<open>
  The stored voltage and the capacitance that a tick reads are finite in every state that the
  constructor and ticks within the range produce: the constructor stores the voltage 0 and
  its (finite) argument, and a tick stores the difference of the node voltages and leaves the
  capacitance as it is.
\<close>

lemma Capacitor_new_state:
  "properties (Capacitor_new i (Fin c)) ''voltage'' = Num (Fin 0)
   \<and> properties (Capacitor_new i (Fin c)) ''capacitance'' = Num (Fin c)
   \<and> length (terminals (Capacitor_new i (Fin c))) = 2"
  by (simp add: Capacitor_new_def noProps_def)

lemma Capacitor_simulate_state:
  assumes "2 \<le> length (terminals this)"
    and "readVoltage nv (tid (terminals this ! 0)) = Fin a"
    and "readVoltage nv (tid (terminals this ! 1)) = Fin b"
    and "\<bar>a - b\<bar> \<le> maxDouble"
  shows "properties (Capacitor_simulate dt nv this) ''voltage'' = Num (Fin (a - b))
   \<and> properties (Capacitor_simulate dt nv this) ''capacitance'' = properties this ''capacitance''
   \<and> length (terminals (Capacitor_simulate dt nv this)) = length (terminals this)"
  using assms(1)
  by (simp add: Capacitor_simulate_def Let_def assms(2,3) dbl_in_range [OF assms(4)]
      del: One_nat_def)

text \<open>
  C10, amended.  The divisor of the capacitor current is \<open>Math.max(deltaTime, 0.001)\<close>: for
  every finite \<open>deltaTime\<close> (zero and negative values included) it is at least \<open>0.001\<close>, so
  the division is never by zero.  With finite node voltages, and the finite stored voltage
  and capacitance of the state, the computed current is the finite value
  \<open>C * (dV / max deltaTime 0.001)\<close> as long as no intermediate result (the voltage, its change,
  the quotient and the product) exceeds the largest finite double.
\<close>

theorem capacitor_current_finite:
  assumes "2 \<le> length (terminals this)"
    and "readVoltage nv (tid (terminals this ! 0)) = Fin a"
    and "readVoltage nv (tid (terminals this ! 1)) = Fin b"
    and "properties this ''voltage'' = Num (Fin pv)"
    and "properties this ''capacitance'' = Num (Fin c)"
    and "C = (if c = 0 then 100 / 1000000 else c)"
    and "\<bar>a - b\<bar> \<le> maxDouble"
    and "\<bar>a - b - pv\<bar> \<le> maxDouble"
    and "\<bar>(a - b - pv) / max d (1 / 1000)\<bar> \<le> maxDouble"
    and "\<bar>C * ((a - b - pv) / max d (1 / 1000))\<bar> \<le> maxDouble"
  shows "properties (Capacitor_simulate (Fin d) nv this) ''current''
           = Num (Fin (C * ((a - b - pv) / max d (1 / 1000))))
         \<and> 1 / 1000 \<le> max d (1 / 1000)
         \<and> isFinite (toNum (properties (Capacitor_simulate (Fin d) nv this) ''current''))"
proof -
  have c: "toNum (js_or (Num (Fin c)) (Num (Fin (100 / 1000000)))) = Fin C"
    using assms(6) by (simp add: js_or_def)
  have p: "toNum (js_or (Num (Fin pv)) (Num (Fin 0))) = Fin pv"
    by simp
  have 1: "dbl (js_sub (Fin a) (Fin b)) = Fin (a - b)"
    by (simp only: js_sub_fin dbl_in_range [OF assms(7)])
  have 2: "dbl (js_sub (Fin (a - b)) (Fin pv)) = Fin (a - b - pv)"
    by (simp only: js_sub_fin dbl_in_range [OF assms(8)])
  have m: "max d (1 / 1000) \<noteq> 0" by (simp add: max_def)
  have "js_div (Fin (a - b - pv)) (js_max (Fin d) (Fin (1 / 1000)))
          = Fin ((a - b - pv) / max d (1 / 1000))"
    using m by (simp only: js_max_fin js_div.simps if_False)
  then have 3: "dbl (js_div (Fin (a - b - pv)) (js_max (Fin d) (Fin (1 / 1000))))
          = Fin ((a - b - pv) / max d (1 / 1000))"
    by (simp only: dbl_in_range [OF assms(9)])
  have 4: "dbl (js_mul (Fin C) (Fin ((a - b - pv) / max d (1 / 1000))))
          = Fin (C * ((a - b - pv) / max d (1 / 1000)))"
    by (simp only: js_mul.simps dbl_in_range [OF assms(10)])
  have "properties (Capacitor_simulate (Fin d) nv this) ''current''
          = Num (Fin (C * ((a - b - pv) / max d (1 / 1000))))"
    by (simp only: Capacitor_current [OF assms(1)] assms(2-5) c p 1 2 3 4)
  then show ?thesis by simp
qed

lemma small_in_range: "(5000::real) \<le> maxDouble"
proof -
  have "(2::real) ^ 971 * 2 \<le> 2 ^ 971 * 2 ^ 53" by (intro mult_left_mono) simp_all
  also have "\<dots> = 2 ^ 1024" by (simp add: power_add [symmetric])
  finally have 1: "(2::real) ^ 971 \<le> 2 ^ 1024 - 2 ^ 971" by simp
  have "(5000::real) \<le> 2 ^ 13" by simp
  also have "\<dots> \<le> 2 ^ 971" by (rule power_increasing) simp_all
  finally show ?thesis using 1 unfolding maxDouble_def by linarith
qed

text \<open>The capacitor of 100 microfarad stepping from 0 V to 5 V with \<open>deltaTime = 0\<close>.\<close>

theorem capacitor_current_finite_witness:
  "2 \<le> length (terminals cap1)
   \<and> readVoltage cap1_load (tid (terminals cap1 ! 0)) = Fin 5
   \<and> readVoltage cap1_load (tid (terminals cap1 ! 1)) = Fin 0
   \<and> properties cap1 ''voltage'' = Num (Fin 0)
   \<and> properties cap1 ''capacitance'' = Num (Fin (100 / 1000000))
   \<and> \<bar>5 - 0 :: real\<bar> \<le> maxDouble
   \<and> \<bar>5 - 0 - 0 :: real\<bar> \<le> maxDouble
   \<and> \<bar>(5 - 0 - 0) / max 0 (1 / 1000) :: real\<bar> \<le> maxDouble
   \<and> \<bar>100 / 1000000 * ((5 - 0 - 0) / max 0 (1 / 1000)) :: real\<bar> \<le> maxDouble
   \<and> properties (Capacitor_simulate (Fin 0) cap1_load cap1) ''current''
       = Num (Fin (100 / 1000000 * ((5 - 0 - 0) / max 0 (1 / 1000))))
   \<and> isFinite (toNum (properties (Capacitor_simulate (Fin 0) cap1_load cap1) ''current''))"
proof -
  have e: "(100 / 1000000 :: real) = (if (100 / 1000000 :: real) = 0 then 100 / 1000000 else 100 / 1000000)"
    by simp
  have r: "\<bar>5 - 0 :: real\<bar> \<le> maxDouble" "\<bar>5 - 0 - 0 :: real\<bar> \<le> maxDouble"
    "\<bar>(5 - 0 - 0) / max 0 (1 / 1000) :: real\<bar> \<le> maxDouble"
    "\<bar>100 / 1000000 * ((5 - 0 - 0) / max 0 (1 / 1000)) :: real\<bar> \<le> maxDouble"
    using small_in_range by simp_all
  have t: "properties (Capacitor_simulate (Fin 0) cap1_load cap1) ''current''
       = Num (Fin (100 / 1000000 * ((5 - 0 - 0) / max 0 (1 / 1000))))
     \<and> 1 / 1000 \<le> max (0::real) (1 / 1000)
     \<and> isFinite (toNum (properties (Capacitor_simulate (Fin 0) cap1_load cap1) ''current''))"
    by (rule capacitor_current_finite [OF cap1_reads(1) cap1_reads(4) cap1_reads(5)
          cap1_reads(2) cap1_reads(3) e r])
  show ?thesis
    by (intro conjI cap1_reads(1-5) r t [THEN conjunct1] t [THEN conjunct2, THEN conjunct2])
qed

subsection \<open>Fuse\<close>

lemma Fuse_simulate_length [simp]:
  "length (terminals (Fuse_simulate dt nv this)) = length (terminals this)"
  by (simp add: Fuse_simulate_def Let_def)

lemma Fuse_blown_step:
  assumes "2 \<le> length (terminals this)" and "truthy (properties this ''blown'')"
  shows "properties (Fuse_simulate dt nv this) ''resistance'' = Num (Fin 1000000000)
       \<and> properties (Fuse_simulate dt nv this) ''current'' = Num (Fin 0)
       \<and> properties (Fuse_simulate dt nv this) ''blown'' = properties this ''blown''"
  using assms by (simp add: Fuse_simulate_def Let_def)

lemma Fuse_blown_run:
  assumes "2 \<le> length (terminals this)" and "truthy (properties this ''blown'')"
  shows "2 \<le> length (terminals (foldl (\<lambda>c (dt, nv). Fuse_simulate dt nv c) this ticks))
       \<and> properties (foldl (\<lambda>c (dt, nv). Fuse_simulate dt nv c) this ticks) ''blown''
           = properties this ''blown''
       \<and> (ticks \<noteq> [] \<longrightarrow>
            properties (foldl (\<lambda>c (dt, nv). Fuse_simulate dt nv c) this ticks) ''resistance''
              = Num (Fin 1000000000)
          \<and> properties (foldl (\<lambda>c (dt, nv). Fuse_simulate dt nv c) this ticks) ''current''
              = Num (Fin 0))"
proof (induction ticks rule: rev_induct)
  case Nil
  then show ?case using assms by simp
next
  case (snoc t ticks)
  obtain dt nv where t: "t = (dt, nv)" by (cases t)
  let ?c = "foldl (\<lambda>c (dt, nv). Fuse_simulate dt nv c) this ticks"
  from snoc assms have l: "2 \<le> length (terminals ?c)" and b: "truthy (properties ?c ''blown'')"
    by simp_all
  show ?case using Fuse_blown_step[OF l b, of dt nv] snoc l by (simp add: t)
qed

lemma Fuse_heat_step:
  assumes "2 \<le> length (terminals this)"
    and "properties this ''rating'' = Num (Fin r)" and "r \<noteq> 0"
    and "\<not> truthy (properties this ''blown'')"
    and "properties this ''heatAccumulated'' = Num (Fin h)"
    and "readVoltage nv (tid (terminals this ! 0)) = Fin a"
    and "readVoltage nv (tid (terminals this ! 1)) = Fin b"
    and "1 < \<bar>(a - b) / (1 / 100)\<bar> / r"
  shows "properties (Fuse_simulate (Fin d) nv this) ''heatAccumulated''
           = Num (Fin (h + (\<bar>(a - b) / (1 / 100)\<bar> / r) * (\<bar>(a - b) / (1 / 100)\<bar> / r) * d))
       \<and> (truthy (properties (Fuse_simulate (Fin d) nv this) ''blown'')
            \<longleftrightarrow> 2 < h + (\<bar>(a - b) / (1 / 100)\<bar> / r) * (\<bar>(a - b) / (1 / 100)\<bar> / r) * d)"
  using assms by (simp add: Fuse_simulate_def Let_def)

text \<open>
  C5.  A fuse with (at least) its two terminals, in three parts.
  (1) While the fuse is intact and \<open>currentRatio = |current| / rating\<close> exceeds 1, where the
  current is the terminal voltage over 0.01 Ohm, a tick adds
  \<open>currentRatio * currentRatio * deltaTime\<close> to the accumulated heat, and the fuse is blown
  after the tick exactly if the new heat exceeds the threshold 2.
  (2) Once blown, after every further sequence of ticks (any time steps, any voltages) the
  fuse is still blown and presents resistance \<open>1e9\<close> and current 0.
  (3) The solver stamps a blown fuse with resistance \<open>1e9\<close> and an intact one with 0.01.
\<close>

theorem fuse_overcurrent_blows:
  assumes "2 \<le> length (terminals this)"
  shows "(properties this ''rating'' = Num (Fin r) \<and> r \<noteq> 0
            \<and> \<not> truthy (properties this ''blown'')
            \<and> properties this ''heatAccumulated'' = Num (Fin h)
            \<and> readVoltage nv (tid (terminals this ! 0)) = Fin a
            \<and> readVoltage nv (tid (terminals this ! 1)) = Fin b
            \<and> currentRatio = \<bar>(a - b) / (1 / 100)\<bar> / r \<and> 1 < currentRatio
          \<longrightarrow> properties (Fuse_simulate (Fin d) nv this) ''heatAccumulated''
                = Num (Fin (h + currentRatio * currentRatio * d))
              \<and> (truthy (properties (Fuse_simulate (Fin d) nv this) ''blown'')
                   \<longleftrightarrow> 2 < h + currentRatio * currentRatio * d))
       \<and> (truthy (properties this ''blown'') \<and> ticks \<noteq> []
          \<longrightarrow> truthy (properties (foldl (\<lambda>c (dt, nv). Fuse_simulate dt nv c) this ticks) ''blown'')
              \<and> properties (foldl (\<lambda>c (dt, nv). Fuse_simulate dt nv c) this ticks) ''resistance''
                  = Num (Fin 1000000000)
              \<and> properties (foldl (\<lambda>c (dt, nv). Fuse_simulate dt nv c) this ticks) ''current''
                  = Num (Fin 0))
       \<and> (ctype this = FUSE
          \<longrightarrow> branchResistance this
                = Some (if truthy (properties this ''blown'') then Fin 1000000000 else Fin (1 / 100)))"
proof (intro conjI impI)
  assume h: "properties this ''rating'' = Num (Fin r) \<and> r \<noteq> 0
            \<and> \<not> truthy (properties this ''blown'')
            \<and> properties this ''heatAccumulated'' = Num (Fin h)
            \<and> readVoltage nv (tid (terminals this ! 0)) = Fin a
            \<and> readVoltage nv (tid (terminals this ! 1)) = Fin b
            \<and> currentRatio = \<bar>(a - b) / (1 / 100)\<bar> / r \<and> 1 < currentRatio"
  then have r: "1 < \<bar>(a - b) / (1 / 100)\<bar> / r" by simp
  from h Fuse_heat_step [OF assms _ _ _ _ _ _ r, of h nv d]
  show "properties (Fuse_simulate (Fin d) nv this) ''heatAccumulated''
          = Num (Fin (h + currentRatio * currentRatio * d))"
    and "truthy (properties (Fuse_simulate (Fin d) nv this) ''blown'')
          \<longleftrightarrow> 2 < h + currentRatio * currentRatio * d"
    by simp_all
next
  assume b: "truthy (properties this ''blown'') \<and> ticks \<noteq> []"
  with Fuse_blown_run [OF assms, of ticks]
  show "truthy (properties (foldl (\<lambda>c (dt, nv). Fuse_simulate dt nv c) this ticks) ''blown'')"
    and "properties (foldl (\<lambda>c (dt, nv). Fuse_simulate dt nv c) this ticks) ''resistance''
           = Num (Fin 1000000000)"
    and "properties (foldl (\<lambda>c (dt, nv). Fuse_simulate dt nv c) this ticks) ''current''
           = Num (Fin 0)"
    by simp_all
next
  assume "ctype this = FUSE"
  then show "branchResistance this
       = Some (if truthy (properties this ''blown'') then Fin 1000000000 else Fin (1 / 100))"
    by (simp add: branchResistance_def)
qed

text \<open>
  The fuse rated 1 A at 3 A: a quarter second adds \<open>9 * 0.25\<close> to the heat, which exceeds 2,
  and the blown fuse stays open over two further ticks.
\<close>

theorem fuse_overcurrent_blows_witness:
  "2 \<le> length (terminals fuse1)
   \<and> properties fuse1 ''rating'' = Num (Fin 1) \<and> (1::real) \<noteq> 0
   \<and> \<not> truthy (properties fuse1 ''blown'')
   \<and> properties fuse1 ''heatAccumulated'' = Num (Fin 0)
   \<and> readVoltage fuse1_load (tid (terminals fuse1 ! 0)) = Fin (3 / 100)
   \<and> readVoltage fuse1_load (tid (terminals fuse1 ! 1)) = Fin 0
   \<and> (3::real) = \<bar>(3 / 100 - 0) / (1 / 100)\<bar> / 1 \<and> (1::real) < 3
   \<and> properties (Fuse_simulate (Fin (1 / 4)) fuse1_load fuse1) ''heatAccumulated'' = Num (Fin (9 / 4))
   \<and> truthy (properties (Fuse_simulate (Fin (1 / 4)) fuse1_load fuse1) ''blown'')
   \<and> 2 \<le> length (terminals fuse1_blown)
   \<and> truthy (properties fuse1_blown ''blown'')
   \<and> [(Fin (1 / 4), fuse1_load), (Fin 1, [])] \<noteq> []
   \<and> properties (foldl (\<lambda>c (dt, nv). Fuse_simulate dt nv c) fuse1_blown
         [(Fin (1 / 4), fuse1_load), (Fin 1, [])]) ''resistance'' = Num (Fin 1000000000)
   \<and> properties (foldl (\<lambda>c (dt, nv). Fuse_simulate dt nv c) fuse1_blown
         [(Fin (1 / 4), fuse1_load), (Fin 1, [])]) ''current'' = Num (Fin 0)
   \<and> ctype fuse1_blown = FUSE
   \<and> branchResistance fuse1_blown = Some (Fin 1000000000)"
proof -
  have l: "2 \<le> length (terminals fuse1)" and l': "2 \<le> length (terminals fuse1_blown)"
    by (simp_all add: fuse1_def fuse1_blown_def constructor_defs)
  have h: "properties fuse1 ''rating'' = Num (Fin 1)" "(1::real) \<noteq> 0"
    "\<not> truthy (properties fuse1 ''blown'')"
    "properties fuse1 ''heatAccumulated'' = Num (Fin 0)"
    "readVoltage fuse1_load (tid (terminals fuse1 ! 0)) = Fin (3 / 100)"
    "readVoltage fuse1_load (tid (terminals fuse1 ! 1)) = Fin 0"
    "(3::real) = \<bar>(3 / 100 - 0) / (1 / 100)\<bar> / 1" "(1::real) < 3"
    by (simp_all add: fuse1_def fuse1_load_def constructor_defs read_defs)
  have b: "truthy (properties fuse1_blown ''blown'')" "ctype fuse1_blown = FUSE"
    by (simp_all add: fuse1_blown_def fuse1_def constructor_defs)
  from fuse_overcurrent_blows [OF l, of 1 0 fuse1_load "3 / 100" 0 3 "1 / 4"] h
  have 1: "properties (Fuse_simulate (Fin (1 / 4)) fuse1_load fuse1) ''heatAccumulated'' = Num (Fin (9 / 4))
         \<and> truthy (properties (Fuse_simulate (Fin (1 / 4)) fuse1_load fuse1) ''blown'')"
    by simp
  from fuse_overcurrent_blows [OF l', of _ _ _ _ _ _ _ "[(Fin (1 / 4), fuse1_load), (Fin 1, [])]"] b
  have 2: "properties (foldl (\<lambda>c (dt, nv). Fuse_simulate dt nv c) fuse1_blown
         [(Fin (1 / 4), fuse1_load), (Fin 1, [])]) ''resistance'' = Num (Fin 1000000000)
   \<and> properties (foldl (\<lambda>c (dt, nv). Fuse_simulate dt nv c) fuse1_blown
         [(Fin (1 / 4), fuse1_load), (Fin 1, [])]) ''current'' = Num (Fin 0)
   \<and> branchResistance fuse1_blown = Some (Fin 1000000000)"
    by simp
  from l l' h b 1 2 show ?thesis by simp
qed

subsection \<open>Lamp\<close>

lemma Lamp_simulate_length [simp]:
  "length (terminals (Lamp_simulate dt nv this)) = length (terminals this)"
  by (simp add: Lamp_simulate_def Let_def)

lemma Lamp_broken_step:
  assumes "2 \<le> length (terminals this)" and "truthy (properties this ''broken'')"
  shows "properties (Lamp_simulate dt nv this) ''resistance'' = Num (Fin 1000000000)
       \<and> properties (Lamp_simulate dt nv this) ''current'' = Num (Fin 0)
       \<and> properties (Lamp_simulate dt nv this) ''brightness'' = Num (Fin 0)
       \<and> properties (Lamp_simulate dt nv this) ''broken'' = properties this ''broken''"
  using assms by (simp add: Lamp_simulate_def Let_def)

lemma Lamp_broken_run:
  assumes "2 \<le> length (terminals this)" and "truthy (properties this ''broken'')"
  shows "2 \<le> length (terminals (foldl (\<lambda>c (dt, nv). Lamp_simulate dt nv c) this ticks))
       \<and> properties (foldl (\<lambda>c (dt, nv). Lamp_simulate dt nv c) this ticks) ''broken''
           = properties this ''broken''
       \<and> (ticks \<noteq> [] \<longrightarrow>
            properties (foldl (\<lambda>c (dt, nv). Lamp_simulate dt nv c) this ticks) ''resistance''
              = Num (Fin 1000000000)
          \<and> properties (foldl (\<lambda>c (dt, nv). Lamp_simulate dt nv c) this ticks) ''current''
              = Num (Fin 0)
          \<and> properties (foldl (\<lambda>c (dt, nv). Lamp_simulate dt nv c) this ticks) ''brightness''
              = Num (Fin 0))"
proof (induction ticks rule: rev_induct)
  case Nil
  then show ?case using assms by simp
next
  case (snoc t ticks)
  obtain dt nv where t: "t = (dt, nv)" by (cases t)
  let ?c = "foldl (\<lambda>c (dt, nv). Lamp_simulate dt nv c) this ticks"
  from snoc assms have l: "2 \<le> length (terminals ?c)" and b: "truthy (properties ?c ''broken'')"
    by simp_all
  show ?case using Lamp_broken_step[OF l b, of dt nv] snoc l by (simp add: t)
qed

lemma Lamp_intact_step:
  assumes "2 \<le> length (terminals this)"
    and "\<not> truthy (properties this ''broken'')"
    and "properties this ''powerRating'' = Num (Fin pr)" and "0 < pr"
    and "properties this ''maxPower'' = Num (Fin (pr * (3 / 2)))"
    and "properties (Lamp_simulate dt nv this) ''power'' = Num (Fin P)"
  shows "properties (Lamp_simulate dt nv this) ''brightness'' = Num (Fin (min (sqrt (P / pr)) (3 / 2)))
       \<and> (truthy (properties (Lamp_simulate dt nv this) ''broken'') \<longleftrightarrow> pr * (3 / 2) < P)"
proof -
  have P: "0 \<le> P" using assms
    by (auto simp add: Lamp_simulate_def Let_def split: if_splits dest: js_abs_fin_nonneg)
  then have "\<not> P / pr < 0" using assms(4) by (simp add: divide_less_0_iff)
  then show ?thesis using assms
    by (auto simp add: Lamp_simulate_def Let_def split: if_splits)
qed

text \<open>
  The burn-out limit \<open>maxPower\<close> is a stored property: the constructor sets it to 1.5 times
  the rated power, and a tick leaves the rating alone and keeps the limit at 1.5 times the
  rating.
\<close>

lemma Lamp_new_maxPower:
  "properties (Lamp_new i (Fin vr) (Fin pr)) ''maxPower'' = Num (Fin (pr * (3 / 2)))
   \<and> properties (Lamp_new i (Fin vr) (Fin pr)) ''powerRating'' = Num (Fin pr)
   \<and> \<not> truthy (properties (Lamp_new i (Fin vr) (Fin pr)) ''broken'')
   \<and> length (terminals (Lamp_new i (Fin vr) (Fin pr))) = 2"
  by (simp add: constructor_defs Let_def)

lemma Lamp_simulate_maxPower:
  assumes "properties this ''powerRating'' = Num (Fin pr)"
    and "properties this ''maxPower'' = Num (Fin (pr * (3 / 2)))"
  shows "properties (Lamp_simulate dt nv this) ''powerRating'' = Num (Fin pr)
       \<and> properties (Lamp_simulate dt nv this) ''maxPower'' = Num (Fin (pr * (3 / 2)))"
  using assms by (simp add: Lamp_simulate_def Let_def)

text \<open>
  C6.  A lamp with its two terminals whose burn-out limit is 1.5 times its (positive) rated
  power, as the constructor and every tick leave it.
  (1) A tick on an intact lamp that computes the power \<open>P\<close> reports the brightness
  \<open>min (sqrt (P / powerRating)) 1.5\<close>, and the lamp is broken after the tick exactly if
  \<open>P\<close> exceeds 1.5 times the rated power.
  (2) Once broken, after every further sequence of ticks (any voltages) the lamp is still
  broken (no tick resets the flag) and reports brightness 0, current 0 and resistance
  \<open>1e9\<close>.
\<close>

theorem lamp_burns_out_once:
  assumes "2 \<le> length (terminals this)"
  shows "(\<not> truthy (properties this ''broken'')
            \<and> properties this ''powerRating'' = Num (Fin pr) \<and> 0 < pr
            \<and> properties this ''maxPower'' = Num (Fin (pr * (3 / 2)))
            \<and> properties (Lamp_simulate dt nv this) ''power'' = Num (Fin P)
          \<longrightarrow> properties (Lamp_simulate dt nv this) ''brightness''
                = Num (Fin (min (sqrt (P / pr)) (3 / 2)))
              \<and> (truthy (properties (Lamp_simulate dt nv this) ''broken'') \<longleftrightarrow> pr * (3 / 2) < P))
       \<and> (truthy (properties this ''broken'') \<and> ticks \<noteq> []
          \<longrightarrow> truthy (properties (foldl (\<lambda>c (dt, nv). Lamp_simulate dt nv c) this ticks) ''broken'')
              \<and> properties (foldl (\<lambda>c (dt, nv). Lamp_simulate dt nv c) this ticks) ''brightness''
                  = Num (Fin 0)
              \<and> properties (foldl (\<lambda>c (dt, nv). Lamp_simulate dt nv c) this ticks) ''current''
                  = Num (Fin 0)
              \<and> properties (foldl (\<lambda>c (dt, nv). Lamp_simulate dt nv c) this ticks) ''resistance''
                  = Num (Fin 1000000000))"
proof (intro conjI impI)
  assume h: "\<not> truthy (properties this ''broken'')
            \<and> properties this ''powerRating'' = Num (Fin pr) \<and> 0 < pr
            \<and> properties this ''maxPower'' = Num (Fin (pr * (3 / 2)))
            \<and> properties (Lamp_simulate dt nv this) ''power'' = Num (Fin P)"
  with Lamp_intact_step [OF assms, of pr dt nv P]
  show "properties (Lamp_simulate dt nv this) ''brightness'' = Num (Fin (min (sqrt (P / pr)) (3 / 2)))"
    and "truthy (properties (Lamp_simulate dt nv this) ''broken'') \<longleftrightarrow> pr * (3 / 2) < P"
    by simp_all
next
  assume b: "truthy (properties this ''broken'') \<and> ticks \<noteq> []"
  with Lamp_broken_run [OF assms, of ticks]
  show "truthy (properties (foldl (\<lambda>c (dt, nv). Lamp_simulate dt nv c) this ticks) ''broken'')"
    and "properties (foldl (\<lambda>c (dt, nv). Lamp_simulate dt nv c) this ticks) ''brightness'' = Num (Fin 0)"
    and "properties (foldl (\<lambda>c (dt, nv). Lamp_simulate dt nv c) this ticks) ''current'' = Num (Fin 0)"
    and "properties (foldl (\<lambda>c (dt, nv). Lamp_simulate dt nv c) this ticks) ''resistance''
           = Num (Fin 1000000000)"
    by simp_all
qed

text \<open>
  The 12 V, 60 W lamp at 24 V: the power is 240 W, above the limit of 90 W; the broken lamp
  stays dark over two further ticks.
\<close>

theorem lamp_burns_out_once_witness:
  "2 \<le> length (terminals lamp1)
   \<and> \<not> truthy (properties lamp1 ''broken'')
   \<and> properties lamp1 ''powerRating'' = Num (Fin 60) \<and> (0::real) < 60
   \<and> properties lamp1 ''maxPower'' = Num (Fin (60 * (3 / 2)))
   \<and> properties (Lamp_simulate (Fin 1) lamp1_load lamp1) ''power'' = Num (Fin 240)
   \<and> properties (Lamp_simulate (Fin 1) lamp1_load lamp1) ''brightness''
       = Num (Fin (min (sqrt (240 / 60)) (3 / 2)))
   \<and> truthy (properties (Lamp_simulate (Fin 1) lamp1_load lamp1) ''broken'')
   \<and> 2 \<le> length (terminals lamp1_broken)
   \<and> truthy (properties lamp1_broken ''broken'')
   \<and> [(Fin 1, lamp1_load), (Fin 1, lamp1_load)] \<noteq> []
   \<and> truthy (properties (foldl (\<lambda>c (dt, nv). Lamp_simulate dt nv c) lamp1_broken
         [(Fin 1, lamp1_load), (Fin 1, lamp1_load)]) ''broken'')
   \<and> properties (foldl (\<lambda>c (dt, nv). Lamp_simulate dt nv c) lamp1_broken
         [(Fin 1, lamp1_load), (Fin 1, lamp1_load)]) ''brightness'' = Num (Fin 0)"
proof -
  have l: "2 \<le> length (terminals lamp1)" and l': "2 \<le> length (terminals lamp1_broken)"
    by (simp_all add: lamp1_def lamp1_broken_def constructor_defs Let_def)
  have h: "\<not> truthy (properties lamp1 ''broken'')"
    "properties lamp1 ''powerRating'' = Num (Fin 60)" "(0::real) < 60"
    "properties lamp1 ''maxPower'' = Num (Fin (60 * (3 / 2)))"
    by (simp_all add: lamp1_def constructor_defs Let_def)
  have p: "properties (Lamp_simulate (Fin 1) lamp1_load lamp1) ''power'' = Num (Fin 240)"
    by (simp add: Lamp_simulate_def lamp1_def lamp1_load_def constructor_defs read_defs Let_def)
  have b: "truthy (properties lamp1_broken ''broken'')"
    by (simp add: lamp1_broken_def)
  from lamp_burns_out_once [OF l, of 60 "Fin 1" lamp1_load 240] h p
  have 1: "properties (Lamp_simulate (Fin 1) lamp1_load lamp1) ''brightness''
       = Num (Fin (min (sqrt (240 / 60)) (3 / 2)))
     \<and> truthy (properties (Lamp_simulate (Fin 1) lamp1_load lamp1) ''broken'')"
    by simp
  from lamp_burns_out_once [OF l', of _ _ _ _ "[(Fin 1, lamp1_load), (Fin 1, lamp1_load)]"] b
  have 2: "truthy (properties (foldl (\<lambda>c (dt, nv). Lamp_simulate dt nv c) lamp1_broken
         [(Fin 1, lamp1_load), (Fin 1, lamp1_load)]) ''broken'')
   \<and> properties (foldl (\<lambda>c (dt, nv). Lamp_simulate dt nv c) lamp1_broken
         [(Fin 1, lamp1_load), (Fin 1, lamp1_load)]) ''brightness'' = Num (Fin 0)"
    by simp
  from l l' h p b 1 2 show ?thesis by simp
qed

subsection \<open>Battery\<close>

text \<open>
  C7, as stated, fails.  The fresh 9 V, 500 mAh battery delivering 1 A for 180 s is left with
  90 percent of its charge, well above the floor of 0.7 of the depletion factor, and its
  nominal voltage has dropped from 9 V to 8.1 V.
\<close>

theorem battery_voltage_sags_above_floor:
  "properties (Battery_simulate (Fin 180) battery9_load battery9) ''chargePercent'' = Num (Fin 90)
   \<and> properties battery9 ''voltage'' = Num (Fin 9)
   \<and> properties (Battery_simulate (Fin 180) battery9_load battery9) ''voltage'' = Num (Fin (81 / 10))"
  by (simp add: Battery_simulate_def Let_def battery9_def battery9_load_def constructor_defs read_defs)

text \<open>
  C7, amended.  On a battery tick with discharge current \<open>I = (voltage - (vPos - vNeg)) /
  internalResistance > 0\<close> the remaining charge becomes
  \<open>max 0 (chargeRemaining - I * deltaTime * 1000 / 3600)\<close>, and the nominal voltage is
  multiplied by \<open>max 0.7 (chargeRemaining / capacity)\<close> of the new charge: the factor is
  the remaining fraction itself down to 0.7 and never less than 0.7.
\<close>

theorem battery_discharge:
  assumes "2 \<le> length (terminals this)"
    and "properties this ''voltage'' = Num (Fin V)"
    and "properties this ''internalResistance'' = Num (Fin ri)" and "ri \<noteq> 0"
    and "properties this ''chargeRemaining'' = Num (Fin q)"
    and "properties this ''capacity'' = Num (Fin cap)" and "cap \<noteq> 0"
    and "readVoltage nv (tid (terminals this ! 0)) = Fin a"
    and "readVoltage nv (tid (terminals this ! 1)) = Fin b"
    and "I = (V - (a - b)) / ri" and "0 < I"
    and "q' = max 0 (q - I * d * 1000 / 3600)"
  shows "properties (Battery_simulate (Fin d) nv this) ''chargeRemaining'' = Num (Fin q')
       \<and> properties (Battery_simulate (Fin d) nv this) ''voltage''
           = Num (Fin (V * max (7 / 10) (q' / cap)))"
  using assms by (simp add: Battery_simulate_def Let_def)

theorem battery_discharge_witness:
  "2 \<le> length (terminals battery9)
   \<and> properties battery9 ''voltage'' = Num (Fin 9)
   \<and> properties battery9 ''internalResistance'' = Num (Fin (1 / 10)) \<and> (1 / 10 :: real) \<noteq> 0
   \<and> properties battery9 ''chargeRemaining'' = Num (Fin 500)
   \<and> properties battery9 ''capacity'' = Num (Fin 500) \<and> (500::real) \<noteq> 0
   \<and> readVoltage battery9_load (tid (terminals battery9 ! 0)) = Fin (89 / 10)
   \<and> readVoltage battery9_load (tid (terminals battery9 ! 1)) = Fin 0
   \<and> (1::real) = (9 - (89 / 10 - 0)) / (1 / 10) \<and> (0::real) < 1
   \<and> (450::real) = max 0 (500 - 1 * 180 * 1000 / 3600)
   \<and> properties (Battery_simulate (Fin 180) battery9_load battery9) ''chargeRemaining'' = Num (Fin 450)
   \<and> properties (Battery_simulate (Fin 180) battery9_load battery9) ''voltage''
       = Num (Fin (9 * max (7 / 10) (450 / 500)))"
proof -
  have h: "2 \<le> length (terminals battery9)"
    "properties battery9 ''voltage'' = Num (Fin 9)"
    "properties battery9 ''internalResistance'' = Num (Fin (1 / 10))"
    "properties battery9 ''chargeRemaining'' = Num (Fin 500)"
    "properties battery9 ''capacity'' = Num (Fin 500)"
    "readVoltage battery9_load (tid (terminals battery9 ! 0)) = Fin (89 / 10)"
    "readVoltage battery9_load (tid (terminals battery9 ! 1)) = Fin 0"
    by (simp_all add: battery9_def battery9_load_def constructor_defs read_defs)
  have a: "(1 / 10 :: real) \<noteq> 0" "(500::real) \<noteq> 0" "(1::real) = (9 - (89 / 10 - 0)) / (1 / 10)"
    "(0::real) < 1" "(450::real) = max 0 (500 - 1 * 180 * 1000 / 3600)"
    by simp_all
  have r: "properties (Battery_simulate (Fin 180) battery9_load battery9) ''chargeRemaining'' = Num (Fin 450)
   \<and> properties (Battery_simulate (Fin 180) battery9_load battery9) ''voltage''
       = Num (Fin (9 * max (7 / 10) (450 / 500)))"
    by (rule battery_discharge [OF h(1) h(2) h(3) a(1) h(4) h(5) a(2) h(6) h(7) a(3) a(4) a(5)])
  show ?thesis by (intro conjI h a r [THEN conjunct1] r [THEN conjunct2])
qed

subsection \<open>Voltage source\<close>

text \<open>
  C4, as stated, fails.  The same square-wave source, in the same state, with the same
  \<open>deltaTime\<close> and node voltages, outputs 5 V when the wall clock reads 0 ms and -5 V when
  it reads 750 ms.
\<close>

theorem voltage_source_depends_on_wall_clock:
  "properties (VoltageSource_simulate (Fin 0) (Fin (1 / 1000)) [] squareSource) ''voltage''
     = Num (Fin 5)
   \<and> properties (VoltageSource_simulate (Fin 750) (Fin (1 / 1000)) [] squareSource) ''voltage''
     = Num (Fin (- 5))"
  by (simp add: VoltageSource_simulate_def Let_def waveformOutput_def squareSource_def
      constructor_defs read_defs js_lt_def)

text \<open>
  C4, amended.  The waveform generator is driven by the wall clock (\<open>performance.now()\<close>),
  not by simulation time, and \<open>deltaTime\<close> is not used.  The tick output of a voltage source
  is a function of its prior state, the node voltages and the clock reading; it is independent
  of the clock reading for the DC waveform, and for a source without a waveform object.
\<close>

theorem voltage_source_dc_deterministic:
  assumes "case properties this ''waveform'' of Wave w \<Rightarrow> wtype w = DC | _ \<Rightarrow> True"
  shows "VoltageSource_simulate now1 dt1 nv this = VoltageSource_simulate now2 dt2 nv this"
proof (cases "properties this ''waveform''")
  case (Wave w)
  with assms have "wtype w = DC" by simp
  with Wave show ?thesis
    by (simp add: VoltageSource_simulate_def Let_def waveformOutput_def)
qed (simp_all add: VoltageSource_simulate_def Let_def)

theorem voltage_source_dc_deterministic_witness:
  "(case properties (VoltageSource_new ''V1'') ''waveform'' of Wave w \<Rightarrow> wtype w = DC | _ \<Rightarrow> True)
   \<and> VoltageSource_simulate (Fin 0) (Fin (1 / 1000)) [] (VoltageSource_new ''V1'')
     = VoltageSource_simulate (Fin 750) (Fin 1) [] (VoltageSource_new ''V1'')"
proof -
  have h: "case properties (VoltageSource_new ''V1'') ''waveform'' of
             Wave w \<Rightarrow> wtype w = DC | _ \<Rightarrow> True"
    by (simp add: constructor_defs)
  from voltage_source_dc_deterministic [OF h, of "Fin 0" "Fin (1 / 1000)" "[]" "Fin 750" "Fin 1"] h
  show ?thesis by blast
qed

subsection \<open>Terminals\<close>

text \<open>
  C8, as stated, fails: the ground reference is created with a single terminal.
\<close>

theorem ground_has_one_terminal:
  "createComponent ''G1'' GROUND = Some (Ground_new ''G1'')
   \<and> length (terminals (Ground_new ''G1'')) = 1"
  by (simp add: constructor_defs)

text \<open>
  C8, amended.  Every component that the factory creates owns exactly 2 terminals, except
  the ground reference, which owns exactly 1; the voltage source and the battery have a
  second terminal.
\<close>

theorem created_terminal_count:
  assumes "createComponent i t = Some c"
  shows "length (terminals c) = (if t = GROUND then 1 else 2)"
  using assms by (cases t) (auto simp add: constructor_defs Let_def)

theorem created_terminal_count_witness:
  "createComponent ''B1'' BATTERY = Some (Battery_new ''B1'' (Fin 9) (Fin 500))
   \<and> length (terminals (Battery_new ''B1'' (Fin 9) (Fin 500))) = 2"
proof -
  have h: "createComponent ''B1'' BATTERY = Some (Battery_new ''B1'' (Fin 9) (Fin 500))"
    by simp
  from created_terminal_count [OF h] h show ?thesis by simp
qed

subsection \<open>Linear solver\<close>

lemma backSubstitution_length [simp]:
  "length (backSubstitution A b n m x) = length x"
  by (induction m arbitrary: x) simp_all

lemma backSubstitution_above:
  "m \<le> i \<Longrightarrow> backSubstitution A b n m x ! i = x ! i"
  by (induction m arbitrary: x) simp_all

lemma backSubstitution_zero_pivot:
  "i < m \<Longrightarrow> m \<le> length x \<Longrightarrow> A ! i ! i = Fin 0
     \<Longrightarrow> \<not> isFinite (backSubstitution A b n m x ! i)"
proof (induction m arbitrary: x)
  case 0
  then show ?case by simp
next
  case (Suc m)
  show ?case
  proof (cases "i = m")
    case True
    with Suc.prems show ?thesis
      by (simp add: backSubstitution_above js_div_zero_not_finite)
  next
    case False
    with Suc.prems have "i < m" by simp
    with Suc.IH [of "x[m := js_div (js_sub (b ! m) (rowSum A x n m)) (A ! m ! m)]"] Suc.prems
    show ?thesis by simp
  qed
qed

lemma identifyNodes_floating: "identifyNodes floating [] = Some floating_maps"
  unfolding floating_def floating_maps_def by code_simp

lemma gaussianElimination_floating:
  "gaussianElimination
     [[Fin (1 / 1000), Fin 0, Fin 0],
      [Fin 0, Fin (1 / 1000), Fin (- (1 / 1000))],
      [Fin 0, Fin (- (1 / 1000)), Fin (1 / 1000)]]
     [Fin 0, Fin 0, Fin 0] = [NaN, NaN, NaN]"
  by (simp add: elimination_defs cong: let_weak_cong fold_weak_cong)

lemma solveMNA_floating:
  "solveMNA floating_maps floating [] =
     Inr \<lparr>nodeVoltages = [(''R1-terminal1'', Fin 0), (''R1-terminal2'', NaN),
                          (''R2-terminal1'', NaN), (''R2-terminal2'', NaN)],
          componentCurrents = [(''R1'', Fin 0), (''R2'', Fin 0)],
          componentVoltages = [(''R1'', Fin 0), (''R2'', Fin 0)],
          wireCurrents = [], wireVoltages = []\<rparr>"
  by (simp add: solveMNA_defs floating_maps_def floating_def constructor_defs read_defs
      gaussianElimination_floating numeral_3_eq_3)

text \<open>
  C1, as stated, fails.  Two unwired resistors: the nodes of the second resistor have no
  path to ground, the matrix is singular, and the solve returns normally, with \<open>NaN\<close> node
  voltages.
\<close>

theorem floating_network_returns_NaN:
  "solve floating [] =
     Some (Inr \<lparr>nodeVoltages = [(''R1-terminal1'', Fin 0), (''R1-terminal2'', NaN),
                                (''R2-terminal1'', NaN), (''R2-terminal2'', NaN)],
                componentCurrents = [(''R1'', Fin 0), (''R2'', Fin 0)],
                componentVoltages = [(''R1'', Fin 0), (''R2'', Fin 0)],
                wireCurrents = [], wireVoltages = []\<rparr>)"
  by (simp add: solve_def identifyNodes_floating solveMNA_floating)

text \<open>
  C1, amended.  The linear solver has no pivot check and no failure path: for a square
  system of size \<open>n\<close> it always returns a vector of \<open>n\<close> entries, and whenever a pivot (a
  diagonal entry of the matrix after forward elimination with partial pivoting) is zero,
  the entry of the solution for that row is \<open>NaN\<close> or an infinity.
\<close>

theorem gaussianElimination_zero_pivot:
  assumes "list_all (\<lambda>row. length row = length A) A" and "length b = length A"
  shows "length (gaussianElimination A b) = length A
       \<and> (\<forall>i < length A. fst (forwardElimination A b) ! i ! i = Fin 0
              \<longrightarrow> \<not> isFinite (gaussianElimination A b ! i))"
  by (simp add: gaussianElimination_def Let_def split_beta backSubstitution_zero_pivot)

theorem gaussianElimination_zero_pivot_witness:
  "list_all (\<lambda>row. length row = length [[Fin (0::real)]]) [[Fin 0]]
   \<and> length [Fin 0] = length [[Fin (0::real)]]
   \<and> (0::nat) < length [[Fin (0::real)]]
   \<and> fst (forwardElimination [[Fin 0]] [Fin 0]) ! 0 ! 0 = Fin 0
   \<and> length (gaussianElimination [[Fin 0]] [Fin 0]) = 1
   \<and> \<not> isFinite (gaussianElimination [[Fin 0]] [Fin 0] ! 0)"
proof -
  have h: "list_all (\<lambda>row. length row = length [[Fin (0::real)]]) [[Fin 0]]"
    "length [Fin 0] = length [[Fin (0::real)]]"
    by simp_all
  have p: "fst (forwardElimination [[Fin 0]] [Fin 0]) ! 0 ! 0 = Fin 0"
    by (simp add: elimination_defs cong: let_weak_cong fold_weak_cong)
  from gaussianElimination_zero_pivot [OF h] p
  have "length (gaussianElimination [[Fin 0]] [Fin 0]) = 1
     \<and> \<not> isFinite (gaussianElimination [[Fin 0]] [Fin 0] ! 0)"
    by simp
  with h p show ?thesis by simp
qed

subsection \<open>A resistor across a DC source\<close>

lemma identifyNodes_resistorCircuit:
  "identifyNodes (resistorCircuit V R) [wire1, wire2] = Some resistorCircuit_maps"
  unfolding resistorCircuit_def dcSource_def wire1_def wire2_def resistorCircuit_maps_def
  by code_simp

lemma gaussianElimination_resistorCircuit:
  assumes "g \<noteq> 0"
  shows "gaussianElimination [[Fin g, Fin 1], [Fin 1, Fin 0]] [Fin 0, Fin v]
           = [Fin v, Fin (- (g * v))]"
proof (cases "1 > \<bar>g\<bar>")
  case True
  then show ?thesis using assms
    by (simp add: elimination_defs cong: let_weak_cong fold_weak_cong)
next
  case False
  then show ?thesis using assms
    by (simp add: elimination_defs field_simps cong: let_weak_cong fold_weak_cong)
qed

text \<open>
  The solve of the circuit for every \<open>V\<close> and \<open>R\<close>: a source voltage of 0 is read as the
  default 5 (\<open>voltage || 5\<close>) and a resistance of 0 as the default 1000 (\<open>value || 1000\<close>).
\<close>

lemma solveMNA_resistorCircuit:
  assumes v: "toNum (js_or (Num (Fin V)) (Num (Fin 5))) = Fin v"
    and r: "toNum (js_or (Num (Fin R)) (Num (Fin 1000))) = Fin r"
    and nz: "r \<noteq> 0"
  shows "solveMNA resistorCircuit_maps (resistorCircuit V R) [wire1, wire2] =
     Inr \<lparr>nodeVoltages = [(''V1-negative'', Fin 0), (''R1-terminal1'', Fin v)],
          componentCurrents = [(''V1'', Fin (- (v / r))), (''R1'', Fin (v / r))],
          componentVoltages = [(''V1'', Fin v), (''R1'', Fin v)],
          wireCurrents = [(''w1'', Fin \<bar>v / r\<bar>), (''w2'', Fin \<bar>v / r\<bar>)],
          wireVoltages = [(''w1'', Fin v), (''w2'', Fin 0)]\<rparr>"
proof -
  from nz have g: "1 / r \<noteq> 0" by simp
  show ?thesis using nz
    by (simp add: solveMNA_defs resistorCircuit_maps_def resistorCircuit_def dcSource_def
        wire1_def wire2_def constructor_defs readVoltage_def mapGet_def v r
        gaussianElimination_resistorCircuit [OF g])
qed

lemma solve_resistorCircuit:
  assumes "v = (if V = 0 then 5 else V)" and "r = (if R = 0 then 1000 else R)"
  shows "solve (resistorCircuit V R) [wire1, wire2] =
     Some (Inr \<lparr>nodeVoltages = [(''V1-negative'', Fin 0), (''R1-terminal1'', Fin v)],
                componentCurrents = [(''V1'', Fin (- (v / r))), (''R1'', Fin (v / r))],
                componentVoltages = [(''V1'', Fin v), (''R1'', Fin v)],
                wireCurrents = [(''w1'', Fin \<bar>v / r\<bar>), (''w2'', Fin \<bar>v / r\<bar>)],
                wireVoltages = [(''w1'', Fin v), (''w2'', Fin 0)]\<rparr>)"
proof -
  have v: "toNum (js_or (Num (Fin V)) (Num (Fin 5))) = Fin v"
    and r: "toNum (js_or (Num (Fin R)) (Num (Fin 1000))) = Fin r"
    and nz: "r \<noteq> 0"
    using assms by (simp_all add: js_or_def)
  show ?thesis
    by (simp only: solve_def identifyNodes_resistorCircuit option.map
        solveMNA_resistorCircuit [OF v r nz])
qed

text \<open>
  C3 holds at the values of its example: 5 V across 1000 Ohm give the current 0.005 A and
  the voltage drop 5 V.
\<close>

lemma five_volt_example:
  "solve (resistorCircuit 5 1000) [wire1, wire2] =
     Some (Inr \<lparr>nodeVoltages = [(''V1-negative'', Fin 0), (''R1-terminal1'', Fin 5)],
                componentCurrents = [(''V1'', Fin (- (5 / 1000))), (''R1'', Fin (5 / 1000))],
                componentVoltages = [(''V1'', Fin 5), (''R1'', Fin 5)],
                wireCurrents = [(''w1'', Fin \<bar>5 / 1000\<bar>), (''w2'', Fin \<bar>5 / 1000\<bar>)],
                wireVoltages = [(''w1'', Fin 5), (''w2'', Fin 0)]\<rparr>)"
  by (rule solve_resistorCircuit) simp_all

text \<open>
  C3 is broken by the code for a source of 0 V.  The solver reads the voltage of a source as
  \<open>voltage || 5\<close>, so a voltage of 0 is taken for a missing one: across the 1000 Ohm
  resistor the solve returns the voltage drop 5 V and the current 0.005 A, where the claim
  says 0 V and 0 A.  (\<open>VoltageSource.simulate\<close> reads the same property as \<open>voltage || 0\<close>.)
\<close>

theorem zero_volt_source_solved_as_five:
  "map_option (map_sum id componentVoltages) (solve (resistorCircuit 0 1000) [wire1, wire2])
     = Some (Inr [(''V1'', Fin 5), (''R1'', Fin 5)])
   \<and> map_option (map_sum id componentCurrents) (solve (resistorCircuit 0 1000) [wire1, wire2])
     = Some (Inr [(''V1'', Fin (- (5 / 1000))), (''R1'', Fin (5 / 1000))])"
  by (simp add: solve_resistorCircuit [of 5 0 1000 1000])

subsection \<open>Simulation step\<close>

lemma foldl_reportError_stop:
  "snd (foldl reportError st es) = (snd st \<or> (\<exists>e \<in> set es. stopSimulation e))"
  by (induction es arbitrary: st) (auto simp add: reportError_def Let_def)

lemma componentLoop_components:
  "fst (componentLoop M dt nv cs st) = map (callSimulate M dt nv) cs"
  by (induction cs arbitrary: st) (simp_all add: Let_def)

lemma componentLoop_stop:
  "snd (snd (componentLoop M dt nv cs st))
     = (snd st \<or> (\<exists>c \<in> set cs. \<exists>e \<in> set (callCheckErrors M (callSimulate M dt nv c)).
                      stopSimulation e))"
  by (induction cs arbitrary: st) (auto simp add: Let_def foldl_reportError_stop)

lemma callSimulate_unfold:
  "callSimulate M dt nv = (\<lambda>c. case simulate (M c) of Some f \<Rightarrow> f dt nv c | None \<Rightarrow> c)"
  by (simp add: fun_eq_iff callSimulate_def)

lemma applyResult_voltage:
  "properties (applyResult result c) ''voltage''
     = (case map_of (componentVoltages result) (cid c) of
          Some v \<Rightarrow> Num v | None \<Rightarrow> properties c ''voltage'')"
  by (simp add: applyResult_def mapGet_def Let_def split: option.splits)

lemma applyResult_current:
  "properties (applyResult result c) ''current''
     = (case map_of (componentCurrents result) (cid c) of
          Some i \<Rightarrow> Num i | None \<Rightarrow> properties c ''current'')"
  by (simp add: applyResult_def mapGet_def Let_def split: option.splits)

lemma stepSimulation_returns:
  assumes "running (simulation state)"
    and "solve (components state) (wires state) = Some (Inr result)"
  shows "\<exists>state'. stepSimulation M env deltaTime state = Some state'
           \<and> components state'
               = map (callSimulate M (js_mul deltaTime (speed (simulation state)))
                        (nodeVoltages result))
                   (map (applyResult result) (components state))
           \<and> (running (simulation state')
                \<longleftrightarrow> \<not> (\<exists>c \<in> set (components state'). \<exists>e \<in> set (callCheckErrors M c).
                           stopSimulation e))"
  using assms
  by (simp add: stepSimulation_def Let_def componentLoop_components componentLoop_stop)

lemma identifyNodes_failingStore:
  "identifyNodes (components failingStore) (wires failingStore) = Some failingStore_maps"
  unfolding failingStore_def failingStore_maps_def battery9_def
  by code_simp

lemma solve_failingStore:
  "solve (components failingStore) (wires failingStore) = Some (Inl TypeError)"
proof -
  have "solveMNA failingStore_maps (components failingStore) (wires failingStore) = Inl TypeError"
    by (simp add: solveMNA_defs failingStore_def failingStore_maps_def battery9_def
        constructor_defs)
  then show ?thesis by (simp only: solve_def identifyNodes_failingStore option.map)
qed

text \<open>
  C9, as stated, fails on a tick whose solve throws.  The store holds a ground reference and
  a battery with its class methods.  The tick reports one fault, which carries the halt
  flag, and stops the run, and no component has been updated: the components of the new
  state are those of the old one, although \<open>simulate\<close> of the battery would have lowered its
  charge.
\<close>

theorem solver_failure_stops_without_update:
  "stepSimulation (classMethods noStr noFixed (Fin 0)) env0 (Fin (1 / 1000)) failingStore
     = Some \<lparr>components = [Ground_new ''G1'', battery9], wires = [],
             simulation = \<lparr>running = False, time = Fin (1 / 1000), timeStep = Fin (1 / 1000),
                            speed = Fin 1,
                            errors = [\<lparr>eid = ''e1'', severity = ERROR,
                                       message = ''Simulation failed: TypeError'',
                                       componentIds = [], timestamp = Fin 0,
                                       stopSimulation = True\<rparr>]\<rparr>\<rparr>
   \<and> simulate (classMethods noStr noFixed (Fin 0) battery9) = Some Battery_simulate
   \<and> properties battery9 ''chargeRemaining'' = Num (Fin 500)
   \<and> properties (Battery_simulate (Fin (1 / 1000)) [] battery9) ''chargeRemaining''
       = Num (Fin (19999 / 40))"
proof -
  have 1: "stepSimulation (classMethods noStr noFixed (Fin 0)) env0 (Fin (1 / 1000)) failingStore
     = Some \<lparr>components = [Ground_new ''G1'', battery9], wires = [],
             simulation = \<lparr>running = False, time = Fin (1 / 1000), timeStep = Fin (1 / 1000),
                            speed = Fin 1,
                            errors = [\<lparr>eid = ''e1'', severity = ERROR,
                                       message = ''Simulation failed: TypeError'',
                                       componentIds = [], timestamp = Fin 0,
                                       stopSimulation = True\<rparr>]\<rparr>\<rparr>"
    by (simp add: stepSimulation_def solve_failingStore Let_def)
       (simp add: failingStore_def runningSimulation_def env0_def)
  have 2: "simulate (classMethods noStr noFixed (Fin 0) battery9) = Some Battery_simulate"
    by (simp add: classMethods_def battery9_def constructor_defs)
  have 3: "properties battery9 ''chargeRemaining'' = Num (Fin 500)"
    by (simp add: battery9_def constructor_defs)
  have 4: "properties (Battery_simulate (Fin (1 / 1000)) [] battery9) ''chargeRemaining''
       = Num (Fin (19999 / 40))"
    by (simp add: Battery_simulate_def Let_def battery9_def constructor_defs read_defs)
  show ?thesis by (intro conjI 1 2 3 4)
qed

text \<open>
  C9, amended.  On a tick of a running simulation whose solve returns a result, every
  component is updated before the run flag is touched, whether or not a halting fault is
  reported: the components of the new state are all the components, each with its voltage
  and current taken from the solver result and then passed through its own \<open>simulate\<close>
  method (if it has one); and the run is stopped after the tick exactly if some fault
  returned in this tick by the \<open>checkErrors\<close> method of an updated component (already
  listed or not) carries the halt flag.
\<close>

theorem halting_tick_fully_updated:
  assumes "running (simulation state)"
    and "solve (components state) (wires state) = Some (Inr result)"
  shows "\<exists>state'. stepSimulation M env deltaTime state = Some state'
           \<and> components state'
               = map (\<lambda>c. case simulate (M c) of
                             Some f \<Rightarrow> f (js_mul deltaTime (speed (simulation state)))
                                         (nodeVoltages result) c
                           | None \<Rightarrow> c)
                   (map (applyResult result) (components state))
           \<and> (\<forall>c. properties (applyResult result c) ''voltage''
                      = (case map_of (componentVoltages result) (cid c) of
                           Some v \<Rightarrow> Num v | None \<Rightarrow> properties c ''voltage'')
                  \<and> properties (applyResult result c) ''current''
                      = (case map_of (componentCurrents result) (cid c) of
                           Some i \<Rightarrow> Num i | None \<Rightarrow> properties c ''current''))
           \<and> (running (simulation state')
                \<longleftrightarrow> \<not> (\<exists>c \<in> set (components state').
                         \<exists>e \<in> set (case checkErrors (M c) of Some chk \<Rightarrow> chk c | None \<Rightarrow> []).
                           stopSimulation e))"
proof -
  from assms stepSimulation_returns [of state result M env deltaTime]
  obtain state' where s: "stepSimulation M env deltaTime state = Some state'"
    and c: "components state'
              = map (callSimulate M (js_mul deltaTime (speed (simulation state)))
                       (nodeVoltages result))
                  (map (applyResult result) (components state))"
    and r: "running (simulation state')
              \<longleftrightarrow> \<not> (\<exists>c \<in> set (components state'). \<exists>e \<in> set (callCheckErrors M c).
                         stopSimulation e)"
    by blast
  show ?thesis
  proof (intro exI [of _ state'] conjI allI)
    show "stepSimulation M env deltaTime state = Some state'" by (rule s)
    show "components state'
            = map (\<lambda>c. case simulate (M c) of
                          Some f \<Rightarrow> f (js_mul deltaTime (speed (simulation state)))
                                      (nodeVoltages result) c
                        | None \<Rightarrow> c)
                (map (applyResult result) (components state))"
      using c by (simp only: callSimulate_unfold)
    show "running (simulation state')
            \<longleftrightarrow> \<not> (\<exists>c \<in> set (components state').
                     \<exists>e \<in> set (case checkErrors (M c) of Some chk \<Rightarrow> chk c | None \<Rightarrow> []).
                       stopSimulation e)"
      using r by (simp only: callCheckErrors_def)
  qed (rule applyResult_voltage applyResult_current)+
qed

lemma identifyNodes_haltingStore:
  "identifyNodes (components haltingStore) (wires haltingStore) = Some haltingStore_maps"
  unfolding haltingStore_def haltingStore_maps_def fuse1_blown_def fuse1_def lamp1_def
    dcSource_def wire3_def wire4_def wire5_def wire6_def
  by code_simp

lemma solve_haltingStore:
  "solve (components haltingStore) (wires haltingStore) = Some (Inr haltingStore_result)"
proof -
  have g: "(1 / 1000000000 + 1 / (12 / 5) :: real) \<noteq> 0" by simp
  have "solveMNA haltingStore_maps (components haltingStore) (wires haltingStore)
          = Inr haltingStore_result"
    by (simp add: solveMNA_defs haltingStore_def haltingStore_maps_def haltingStore_result_def
        fuse1_blown_def fuse1_def lamp1_def dcSource_def wire3_def wire4_def wire5_def
        wire6_def constructor_defs read_defs
        gaussianElimination_resistorCircuit)
  then show ?thesis by (simp only: solve_def identifyNodes_haltingStore option.map)
qed

text \<open>
  The blown fuse, first in the list, halts the run.  The lamp, which comes after it, has
  been updated all the same (its brightness goes from 0 to 1 at the rated 12 V), and the
  source, which has no method here, has its current from the solver result.
\<close>

theorem halting_tick_fully_updated_witness:
  "running (simulation haltingStore)
   \<and> solve (components haltingStore) (wires haltingStore) = Some (Inr haltingStore_result)
   \<and> (\<exists>state'. stepSimulation (classMethods noStr noFixed (Fin 0)) env0 (Fin (1 / 1000))
                   haltingStore = Some state'
          \<and> length (components state') = 3
          \<and> properties lamp1 ''brightness'' = Num (Fin 0)
          \<and> properties (components state' ! 1) ''brightness'' = Num (Fin 1)
          \<and> properties (dcSource 12) ''current'' = Num (Fin 0)
          \<and> properties (components state' ! 2) ''current''
              = Num (Fin (- (1250000003 / 250000000)))
          \<and> \<not> running (simulation state'))"
proof -
  let ?M = "classMethods noStr noFixed (Fin 0)"
  have r: "running (simulation haltingStore)"
    by (simp add: haltingStore_def runningSimulation_def)
  from halting_tick_fully_updated [OF r solve_haltingStore, of ?M env0 "Fin (1 / 1000)"]
  obtain state' where s: "stepSimulation ?M env0 (Fin (1 / 1000)) haltingStore = Some state'"
    and c: "components state'
              = map (\<lambda>c. case simulate (?M c) of
                            Some f \<Rightarrow> f (js_mul (Fin (1 / 1000)) (speed (simulation haltingStore)))
                                        (nodeVoltages haltingStore_result) c
                          | None \<Rightarrow> c)
                  (map (applyResult haltingStore_result) (components haltingStore))"
    and h: "running (simulation state')
              \<longleftrightarrow> \<not> (\<exists>c \<in> set (components state').
                       \<exists>e \<in> set (case checkErrors (?M c) of Some chk \<Rightarrow> chk c | None \<Rightarrow> []).
                         stopSimulation e)"
    by blast
  have l: "length (components state') = 3"
    by (simp add: c haltingStore_def)
  have b0: "properties lamp1 ''brightness'' = Num (Fin 0)"
    by (simp add: lamp1_def constructor_defs Let_def)
  have i0: "properties (dcSource 12) ''current'' = Num (Fin 0)"
    by (simp add: dcSource_def constructor_defs)
  have fuse: "components state' ! 0
                = Fuse_simulate (Fin (1 / 1000)) (nodeVoltages haltingStore_result)
                    (applyResult haltingStore_result fuse1_blown)"
    by (simp add: c haltingStore_def runningSimulation_def classMethods_def applyResult_def
        fuse1_blown_def fuse1_def constructor_defs Let_def)
  have lamp: "components state' ! 1
                = Lamp_simulate (Fin (1 / 1000)) (nodeVoltages haltingStore_result)
                    (applyResult haltingStore_result lamp1)"
    by (simp add: c haltingStore_def runningSimulation_def classMethods_def applyResult_def
        lamp1_def constructor_defs Let_def)
  have src: "components state' ! 2 = applyResult haltingStore_result (dcSource 12)"
    by (simp add: c haltingStore_def runningSimulation_def classMethods_def applyResult_def
        dcSource_def constructor_defs Let_def)
  have b1: "properties (components state' ! 1) ''brightness'' = Num (Fin 1)"
    unfolding lamp
    by (simp add: Lamp_simulate_def applyResult_def haltingStore_result_def lamp1_def
        constructor_defs read_defs Let_def)
  have i1: "properties (components state' ! 2) ''current''
              = Num (Fin (- (1250000003 / 250000000)))"
    unfolding src
    by (simp add: applyResult_def haltingStore_result_def dcSource_def constructor_defs
        mapGet_def Let_def)
  have "truthy (properties (components state' ! 0) ''blown'')
        \<and> ctype (components state' ! 0) = FUSE"
    unfolding fuse
    by (simp add: Fuse_simulate_def applyResult_def haltingStore_result_def fuse1_blown_def
        fuse1_def constructor_defs read_defs Let_def)
  then have "\<exists>e \<in> set (case checkErrors (?M (components state' ! 0)) of
                          Some chk \<Rightarrow> chk (components state' ! 0) | None \<Rightarrow> []).
               stopSimulation e"
    by (simp add: classMethods_def Fuse_checkErrors_def)
  moreover have "components state' ! 0 \<in> set (components state')"
    using l by simp
  ultimately have nr: "\<not> running (simulation state')" using h by blast
  from r solve_haltingStore s l b0 b1 i0 i1 nr show ?thesis by blast
qed

subsection \<open>Ground selection\<close>

lemma rootOf_root: "rootOf m k r \<Longrightarrow> m r = Some r"
  by (induction rule: rootOf.induct) simp_all

lemma rootOf_det: "rootOf m k r \<Longrightarrow> rootOf m k r' \<Longrightarrow> r = r'"
proof (induction arbitrary: r' rule: rootOf.induct)
  case (root k)
  from root.prems show ?case
  proof (cases rule: rootOf.cases)
    case root
    then show ?thesis by simp
  next
    case (link v)
    with root.hyps show ?thesis by simp
  qed
next
  case (link k v r)
  from link.prems show ?case
  proof (cases rule: rootOf.cases)
    case root
    with link.hyps show ?thesis by simp
  next
    case (link v')
    with link.hyps have "v' = v" by simp
    with link link.IH show ?thesis by simp
  qed
qed

lemma rootOf_dom: "rootOf m k r \<Longrightarrow> m k \<noteq> None"
  by (cases rule: rootOf.cases) auto

lemma map_of_mapSet [simp]: "map_of (mapSet k v p) = (map_of p)(k \<mapsto> v)"
  by (induction p) (auto simp add: fun_eq_iff)

lemma keys_mapSet_in: "k \<in> fst ` set p \<Longrightarrow> map fst (mapSet k v p) = map fst p"
  by (induction p) force+

lemma keys_mapSet_notin: "k \<notin> fst ` set p \<Longrightarrow> map fst (mapSet k v p) = map fst p @ [k]"
  by (induction p) auto

lemma mapSet_new: "k \<notin> fst ` set p \<Longrightarrow> mapSet k v p = p @ [(k, v)]"
  by (induction p) auto

lemma map_of_key: "(map_of p k = Some v) \<Longrightarrow> k \<in> fst ` set p"
  by (metis map_of_eq_None_iff option.distinct(1))

lemma has_key: "has p k = (k \<in> fst ` set p)"
  by (simp add: has_def map_of_eq_None_iff)

text \<open>Path compression: pointing a key at its root keeps the root of every key.\<close>

lemma rootOf_compress:
  assumes "rootOf m i r" and "rootOf m k s"
  shows "rootOf (m(i \<mapsto> r)) k s"
  using assms(2)
proof (induction rule: rootOf.induct)
  case (root k)
  show ?case
  proof (cases "k = i")
    case True
    with root assms(1) have "r = k" by (auto intro: rootOf_det rootOf.root)
    with True show ?thesis by (auto intro: rootOf.root)
  next
    case False
    with root show ?thesis by (auto intro: rootOf.root)
  qed
next
  case (link k v s)
  show ?case
  proof (cases "k = i")
    case True
    have ks: "rootOf m k s" using link.hyps by (auto intro: rootOf.link)
    with True assms(1) have rs: "r = s" by (auto intro: rootOf_det)
    have "m s = Some s" using ks by (rule rootOf_root)
    with link.hyps have "s \<noteq> k" by auto
    with True rs \<open>m s = Some s\<close> show ?thesis
      by (auto intro!: rootOf.link [where v = s] rootOf.root)
  next
    case False
    with link show ?thesis by (auto intro: rootOf.link)
  qed
qed

text \<open>Union: linking a root to another root.\<close>

lemma rootOf_union:
  assumes "m a = Some a" and "m b = Some b" and "a \<noteq> b" and "rootOf m k s"
  shows "rootOf (m(a \<mapsto> b)) k (if s = a then b else s)"
  using assms(4)
proof (induction rule: rootOf.induct)
  case (root k)
  show ?case
  proof (cases "k = a")
    case True
    with assms show ?thesis by (auto intro!: rootOf.link [where v = b] rootOf.root)
  next
    case False
    with root show ?thesis by (auto intro: rootOf.root)
  qed
next
  case (link k v s)
  with assms have "k \<noteq> a" by auto
  with link show ?case by (auto intro: rootOf.link)
qed

lemma find_uf_rootOf:
  assumes "rootOf (map_of p) i r"
  shows "\<exists>p'. find_uf p i = Some (r, p') \<and> map fst p' = map fst p
            \<and> (\<forall>k s. rootOf (map_of p) k s \<longrightarrow> rootOf (map_of p') k s)"
  using assms
proof (induction rule: rootOf.induct)
  case (root k)
  then show ?case by (subst find_uf.simps) simp
next
  case (link k v r)
  then obtain p1 where f: "find_uf p v = Some (r, p1)" and keys: "map fst p1 = map fst p"
    and pres: "\<forall>k s. rootOf (map_of p) k s \<longrightarrow> rootOf (map_of p1) k s"
    by blast
  have kr: "rootOf (map_of p) k r" using link.hyps by (auto intro: rootOf.link)
  then have kr1: "rootOf (map_of p1) k r" using pres by blast
  have "k \<in> fst ` set p" using link.hyps(1) by (rule map_of_key)
  moreover have "set (map fst p1) = set (map fst p)" using keys by simp
  ultimately have k1: "k \<in> fst ` set p1" by simp
  have "find_uf p k = Some (r, mapSet k r p1)"
    using link.hyps f by (subst find_uf.simps) simp
  moreover have "map fst (mapSet k r p1) = map fst p"
    using k1 keys by (simp add: keys_mapSet_in)
  moreover have "\<forall>k' s. rootOf (map_of p) k' s \<longrightarrow> rootOf (map_of (mapSet k r p1)) k' s"
    using pres kr1 by (auto intro: rootOf_compress)
  ultimately show ?case by blast
qed

lemma keys_eq: "map fst p' = map fst p \<Longrightarrow> fst ` set p' = fst ` set p"
proof -
  assume "map fst p' = map fst p"
  then have "set (map fst p') = set (map fst p)" by simp
  then show ?thesis by simp
qed

lemma forest_preserved:
  assumes "forest p" and "map fst p' = map fst p"
    and "\<forall>k s. rootOf (map_of p) k s \<longrightarrow> rootOf (map_of p') k s"
  shows "forest p'"
  unfolding forest_def
proof
  fix k assume "k \<in> fst ` set p'"
  then have "k \<in> fst ` set p" using keys_eq [OF assms(2)] by simp
  with assms(1) obtain r where "rootOf (map_of p) k r" unfolding forest_def by blast
  with assms(3) have "rootOf (map_of p') k r" by simp
  then show "\<exists>r. rootOf (map_of p') k r" by (rule exI)
qed

lemma union_uf_forest:
  assumes "forest p" and "i \<in> fst ` set p" and "j \<in> fst ` set p"
  shows "\<exists>p'. union_uf p i j = Some p' \<and> map fst p' = map fst p \<and> forest p'"
proof -
  from assms obtain ri where ri: "rootOf (map_of p) i ri" unfolding forest_def by blast
  from find_uf_rootOf [OF ri] obtain p1 where f1: "find_uf p i = Some (ri, p1)"
    and k1: "map fst p1 = map fst p"
    and pres1: "\<forall>k s. rootOf (map_of p) k s \<longrightarrow> rootOf (map_of p1) k s" by blast
  have fo1: "forest p1" using forest_preserved [OF assms(1) k1 pres1] .
  have s1: "fst ` set p1 = fst ` set p" using k1 by (rule keys_eq)
  with assms(3) fo1 obtain rj where rj: "rootOf (map_of p1) j rj" unfolding forest_def by blast
  from find_uf_rootOf [OF rj] obtain p2 where f2: "find_uf p1 j = Some (rj, p2)"
    and k2: "map fst p2 = map fst p1"
    and pres2: "\<forall>k s. rootOf (map_of p1) k s \<longrightarrow> rootOf (map_of p2) k s" by blast
  have fo2: "forest p2" using forest_preserved [OF fo1 k2 pres2] .
  have s2: "fst ` set p2 = fst ` set p" using keys_eq [OF k2] s1 by simp
  have u: "union_uf p i j = Some (if ri \<noteq> rj then mapSet ri rj p2 else p2)"
    by (simp add: union_uf_def f1 f2)
  show ?thesis
  proof (cases "ri = rj")
    case True
    with u fo2 k2 k1 show ?thesis by simp
  next
    case False
    have a: "map_of p2 ri = Some ri"
      using pres1 pres2 ri by (blast intro: rootOf_root)
    have b: "map_of p2 rj = Some rj"
      using pres2 rj by (blast intro: rootOf_root)
    have rik: "ri \<in> fst ` set p2" using a by (rule map_of_key)
    have keys: "map fst (mapSet ri rj p2) = map fst p"
      using rik k2 k1 by (simp add: keys_mapSet_in)
    have "forest (mapSet ri rj p2)"
      unfolding forest_def
    proof
      fix k assume "k \<in> fst ` set (mapSet ri rj p2)"
      then have "k \<in> fst ` set p2" using keys_eq [OF keys] s2 by simp
      with fo2 obtain s where "rootOf (map_of p2) k s" unfolding forest_def by blast
      then have "rootOf ((map_of p2)(ri \<mapsto> rj)) k (if s = ri then rj else s)"
        by (rule rootOf_union [OF a b False])
      then show "\<exists>r. rootOf (map_of (mapSet ri rj p2)) k r"
        unfolding map_of_mapSet by (rule exI)
    qed
    with u False keys show ?thesis by simp
  qed
qed

lemma unionWires_forest:
  assumes "forest p"
  shows "\<exists>p'. unionWires ws p = Some p' \<and> map fst p' = map fst p \<and> forest p'"
  using assms
proof (induction ws arbitrary: p)
  case Nil
  then show ?case by simp
next
  case (Cons w ws)
  show ?case
  proof (cases "has p (fromTerminal w) \<and> has p (toTerminal w)")
    case True
    then have "fromTerminal w \<in> fst ` set p" "toTerminal w \<in> fst ` set p"
      by (simp_all add: has_key)
    from union_uf_forest [OF Cons.prems this] obtain p1
      where u: "union_uf p (fromTerminal w) (toTerminal w) = Some p1"
        and k: "map fst p1 = map fst p" and f: "forest p1" by blast
    from Cons.IH [OF f] obtain p' where r: "unionWires ws p1 = Some p'"
      and k': "map fst p' = map fst p1" and f': "forest p'" by blast
    have "unionWires (w # ws) p = Some p'" using True u r by simp
    with k k' f' show ?thesis by simp
  next
    case False
    from Cons.IH [OF Cons.prems] obtain p' where r: "unionWires ws p = Some p'"
      and k': "map fst p' = map fst p" and f': "forest p'" by blast
    have "unionWires (w # ws) p = Some p'" using False r by auto
    with k' f' show ?thesis by simp
  qed
qed

lemma keys_mapSet: "fst ` set (mapSet k v p) = insert k (fst ` set p)"
proof (cases "k \<in> fst ` set p")
  case True
  then have "map fst (mapSet k v p) = map fst p" by (rule keys_mapSet_in)
  then have "fst ` set (mapSet k v p) = fst ` set p" by (rule keys_eq)
  with True show ?thesis by blast
next
  case False
  then show ?thesis by (simp add: mapSet_new)
qed

lemma distinct_mapSet: "distinct (map fst p) \<Longrightarrow> distinct (map fst (mapSet k v p))"
proof (cases "k \<in> fst ` set p")
  case True
  assume "distinct (map fst p)"
  with True show ?thesis by (simp add: keys_mapSet_in)
next
  case False
  assume "distinct (map fst p)"
  with False show ?thesis by (simp add: keys_mapSet_notin)
qed

text \<open>After the initialisation every key is its own parent.\<close>

lemma initParent_fold:
  assumes "\<forall>k v. map_of p k = Some v \<longrightarrow> v = k"
  shows "(\<forall>k v. map_of (foldl (\<lambda>parent t. mapSet (tid t) (tid t) parent) p ts) k = Some v
            \<longrightarrow> v = k)
       \<and> fst ` set (foldl (\<lambda>parent t. mapSet (tid t) (tid t) parent) p ts)
           = fst ` set p \<union> tid ` set ts"
  using assms
proof (induction ts arbitrary: p)
  case Nil
  then show ?case by simp
next
  case (Cons t ts)
  have "\<forall>k v. map_of (mapSet (tid t) (tid t) p) k = Some v \<longrightarrow> v = k"
    using Cons.prems by simp
  from Cons.IH [OF this] show ?case by (simp add: keys_mapSet)
qed

lemma initParent_keys:
  "fst ` set (initParent cs) = tid ` set (concat (map terminals cs))"
  using initParent_fold [of "[]" "concat (map terminals cs)"]
  by (simp add: initParent_def)

lemma initParent_forest: "forest (initParent cs)"
  unfolding forest_def
proof
  fix k assume k: "k \<in> fst ` set (initParent cs)"
  then obtain v where v: "map_of (initParent cs) k = Some v"
    by (cases "map_of (initParent cs) k") (simp_all add: map_of_eq_None_iff)
  moreover have "v = k"
    using initParent_fold [of "[]" "concat (map terminals cs)"] v
    by (simp add: initParent_def)
  ultimately have "rootOf (map_of (initParent cs)) k k" by (auto intro: rootOf.root)
  then show "\<exists>r. rootOf (map_of (initParent cs)) k r" by (rule exI)
qed

lemma buildNodes_inv:
  assumes "forest p" and "set ts \<subseteq> fst ` set p" and "distinct (map fst nds)"
    and "placed p nds t2n"
  shows "\<exists>p' nds' t2n'. buildNodes ts (p, nds, t2n) = Some (p', nds', t2n')
           \<and> forest p' \<and> map fst p' = map fst p
           \<and> distinct (map fst nds') \<and> placed p' nds' t2n'
           \<and> fst ` set t2n' = fst ` set t2n \<union> set ts"
  using assms
proof (induction ts arbitrary: p nds t2n)
  case Nil
  then show ?case by simp
next
  case (Cons t ts)
  from Cons.prems(1,2) obtain r where r: "rootOf (map_of p) t r"
    unfolding forest_def by auto
  from find_uf_rootOf [OF r] obtain p1 where f: "find_uf p t = Some (r, p1)"
    and k1: "map fst p1 = map fst p"
    and pres: "\<forall>k s. rootOf (map_of p) k s \<longrightarrow> rootOf (map_of p1) k s" by blast
  have fo1: "forest p1" using forest_preserved [OF Cons.prems(1) k1 pres] .
  have s1: "fst ` set p1 = fst ` set p" using k1 by (rule keys_eq)
  define nds1 where "nds1 = (if \<not> has nds r then mapSet r [] nds else nds)"
  define nds2 where "nds2 = mapSet r (the (map_of nds1 r) @ [t]) nds1"
  define t2n1 where "t2n1 = mapSet t r t2n"
  have step: "buildNodes (t # ts) (p, nds, t2n) = buildNodes ts (p1, nds2, t2n1)"
    by (simp add: f nds1_def nds2_def t2n1_def Let_def)
  have d1: "distinct (map fst nds1)"
    using Cons.prems(3) by (simp add: nds1_def distinct_mapSet)
  have d2: "distinct (map fst nds2)"
    using d1 by (simp add: nds2_def distinct_mapSet)
  have sub: "set ts \<subseteq> fst ` set p1" using Cons.prems(2) s1 by simp
  have m2: "map_of nds2 = (map_of nds)(r \<mapsto> the (map_of nds1 r) @ [t])"
    by (auto simp add: nds2_def nds1_def fun_eq_iff)
  have old: "\<And>g ms. map_of nds g = Some ms \<Longrightarrow> \<exists>ms'. map_of nds2 g = Some ms' \<and> set ms \<subseteq> set ms'"
  proof -
    fix g ms assume g: "map_of nds g = Some ms"
    show "\<exists>ms'. map_of nds2 g = Some ms' \<and> set ms \<subseteq> set ms'"
    proof (cases "g = r")
      case True
      with g have "has nds r" by (simp add: has_def)
      then have "nds1 = nds" by (simp add: nds1_def)
      with g True show ?thesis by (auto simp add: m2)
    next
      case False
      with g show ?thesis by (simp add: m2)
    qed
  qed
  have pl: "placed p1 nds2 t2n1"
    unfolding placed_def
  proof (intro allI impI)
    fix t' g assume a: "map_of t2n1 t' = Some g"
    show "rootOf (map_of p1) t' g \<and> (\<exists>ms. map_of nds2 g = Some ms \<and> t' \<in> set ms)"
    proof (cases "t' = t")
      case True
      with a have "g = r" by (simp add: t2n1_def)
      moreover have "rootOf (map_of p1) t r" using pres r by blast
      moreover have "map_of nds2 r = Some (the (map_of nds1 r) @ [t])" by (simp add: m2)
      ultimately show ?thesis using True by simp
    next
      case False
      with a have "map_of t2n t' = Some g" by (simp add: t2n1_def)
      with Cons.prems(4) have 1: "rootOf (map_of p) t' g"
        and "\<exists>ms. map_of nds g = Some ms \<and> t' \<in> set ms"
        unfolding placed_def by blast+
      then obtain ms where "map_of nds g = Some ms" and "t' \<in> set ms" by blast
      with old [of g ms] have "\<exists>ms. map_of nds2 g = Some ms \<and> t' \<in> set ms" by blast
      with 1 pres show ?thesis by blast
    qed
  qed
  from Cons.IH [OF fo1 sub d2 pl] obtain p' nds' t2n'
    where b: "buildNodes ts (p1, nds2, t2n1) = Some (p', nds', t2n')"
      and fo: "forest p'" and k: "map fst p' = map fst p1"
      and d: "distinct (map fst nds')" and pl': "placed p' nds' t2n'"
      and keys: "fst ` set t2n' = fst ` set t2n1 \<union> set ts"
    by blast
  have "fst ` set t2n' = fst ` set t2n \<union> set (t # ts)"
    using keys by (simp add: t2n1_def keys_mapSet)
  with step b fo k k1 d pl' show ?case by simp
qed

lemma placed_empty: "placed p [] []"
  by (simp add: placed_def)

lemma key_map_of: "k \<in> fst ` set p \<Longrightarrow> \<exists>v. map_of p k = Some v"
  by (cases "map_of p k") (simp_all add: map_of_eq_None_iff)

text \<open>The ground node found through \<open>find\<close> is the node entered for the terminal.\<close>

lemma groundNodeId_placed:
  assumes pl: "placed p nds t2n"
    and keys: "tid ` set (concat (map terminals cs)) \<subseteq> fst ` set t2n"
  shows "groundNodeId cs p
           = Some (case List.find (\<lambda>c. ctype c = VOLTAGE_SOURCE) cs of
                     None \<Rightarrow> None
                   | Some vs \<Rightarrow> if 1 < length (terminals vs)
                                then map_of t2n (tid (terminals vs ! 1)) else None)"
proof (cases "List.find (\<lambda>c. ctype c = VOLTAGE_SOURCE) cs")
  case None
  then show ?thesis by (simp add: groundNodeId_def)
next
  case (Some vs)
  show ?thesis
  proof (cases "1 < length (terminals vs)")
    case False
    with Some show ?thesis by (simp add: groundNodeId_def)
  next
    case True
    from Some have "vs \<in> set cs" by (auto simp add: find_Some_iff)
    moreover from True have "terminals vs ! 1 \<in> set (terminals vs)" by simp
    ultimately have "terminals vs ! 1 \<in> set (concat (map terminals cs))" by auto
    then have "tid (terminals vs ! 1) \<in> fst ` set t2n" using keys by blast
    from key_map_of [OF this] obtain g where g: "map_of t2n (tid (terminals vs ! 1)) = Some g"
      by blast
    with pl have "rootOf (map_of p) (tid (terminals vs ! 1)) g"
      unfolding placed_def by blast
    from find_uf_rootOf [OF this] obtain p'
      where "find_uf p (tid (terminals vs ! 1)) = Some (g, p')" by blast
    with Some True g show ?thesis by (simp add: groundNodeId_def)
  qed
qed

text \<open>The indices given by \<open>nodeIds.forEach\<close>, in closed form.\<close>

lemma assignIndices_closed:
  assumes "distinct ids" and "0 \<le> n"
    and "\<forall>i \<in> set ids. map_of acc i = Some (- 1) \<or> i \<notin> fst ` set acc"
  shows "fst (assignIndices ids (acc, n))
           = acc @ zip (filter (\<lambda>i. map_of acc i \<noteq> Some (- 1)) ids)
                       (map (\<lambda>k. n + int k)
                          [0..<length (filter (\<lambda>i. map_of acc i \<noteq> Some (- 1)) ids)])"
  using assms
proof (induction ids arbitrary: acc n)
  case Nil
  then show ?case by simp
next
  case (Cons i ids)
  show ?case
  proof (cases "map_of acc i = Some (- 1)")
    case True
    have "fst (assignIndices (i # ids) (acc, n)) = fst (assignIndices ids (acc, n))"
      using True by simp
    also have "\<dots> = acc @ zip (filter (\<lambda>i. map_of acc i \<noteq> Some (- 1)) ids)
                       (map (\<lambda>k. n + int k)
                          [0..<length (filter (\<lambda>i. map_of acc i \<noteq> Some (- 1)) ids)])"
      using Cons.prems by (intro Cons.IH) simp_all
    finally show ?thesis using True by simp
  next
    case False
    with Cons.prems(3) have new: "i \<notin> fst ` set acc" by simp
    let ?acc = "mapSet i n acc"
    let ?F = "filter (\<lambda>i. map_of acc i \<noteq> Some (- 1)) ids"
    have notin: "i \<notin> set ids" and d: "distinct ids" using Cons.prems(1) by simp_all
    have same: "\<And>j. j \<in> set ids \<Longrightarrow> map_of ?acc j = map_of acc j"
      using notin by auto
    have cond: "\<forall>j \<in> set ids. map_of ?acc j = Some (- 1) \<or> j \<notin> fst ` set ?acc"
    proof
      fix j assume j: "j \<in> set ids"
      with notin have "j \<noteq> i" by auto
      moreover from j Cons.prems(3) have "map_of acc j = Some (- 1) \<or> j \<notin> fst ` set acc"
        by simp
      ultimately show "map_of ?acc j = Some (- 1) \<or> j \<notin> fst ` set ?acc"
        by (auto simp add: keys_mapSet)
    qed
    have F: "filter (\<lambda>i. map_of ?acc i \<noteq> Some (- 1)) ids = ?F"
      using notin by (intro filter_cong refl) auto
    have n1: "0 \<le> n + 1" using Cons.prems(2) by simp
    have "fst (assignIndices (i # ids) (acc, n)) = fst (assignIndices ids (?acc, n + 1))"
      using False by simp
    also have "\<dots> = ?acc @ zip ?F (map (\<lambda>k. n + 1 + int k) [0..<length ?F])"
      using Cons.IH [OF d n1 cond] unfolding F .
    also have "?acc = acc @ [(i, n)]" using new by (rule mapSet_new)
    also have "(acc @ [(i, n)]) @ zip ?F (map (\<lambda>k. n + 1 + int k) [0..<length ?F])
                 = acc @ zip (i # ?F) (map (\<lambda>k. n + int k) [0..<Suc (length ?F)])"
      by (simp add: map_upt_Suc add.commute add.left_commute del: upt_Suc)
    finally show ?thesis using False by simp
  qed
qed

lemma assignIndices_ground:
  assumes "distinct ids"
  shows "fst (assignIndices ids ([(g, - 1)], 0))
           = (g, - 1) # zip (filter (\<lambda>i. i \<noteq> g) ids)
                            (map int [0..<length (filter (\<lambda>i. i \<noteq> g) ids)])"
proof -
  have "\<forall>i \<in> set ids. map_of [(g, - 1 :: int)] i = Some (- 1) \<or> i \<notin> fst ` set [(g, - 1 :: int)]"
    by simp
  from assignIndices_closed [OF assms _ this, of 0]
  have "fst (assignIndices ids ([(g, - 1)], 0))
          = [(g, - 1)] @ zip (filter (\<lambda>i. map_of [(g, - 1 :: int)] i \<noteq> Some (- 1)) ids)
               (map (\<lambda>k. 0 + int k)
                  [0..<length (filter (\<lambda>i. map_of [(g, - 1 :: int)] i \<noteq> Some (- 1)) ids)])"
    by simp
  moreover have "filter (\<lambda>i. map_of [(g, - 1 :: int)] i \<noteq> Some (- 1)) ids
                   = filter (\<lambda>i. i \<noteq> g) ids"
    by (rule filter_cong) simp_all
  ultimately show ?thesis by simp
qed

lemma nodeIndex_closed:
  assumes "distinct ids"
  shows "fst (assignIndices ids
               (if G \<noteq> None \<and> G \<noteq> Some []
                then mapSet (the G) (- 1) []
                else if length ids > 0 then mapSet (ids ! 0) (- 1) [] else [], 0))
           = (case (if G \<noteq> None \<and> G \<noteq> Some [] then G
                    else (case ids of [] \<Rightarrow> None | i # _ \<Rightarrow> Some i)) of
                None \<Rightarrow> []
              | Some g \<Rightarrow> (g, - 1) # zip (filter (\<lambda>i. i \<noteq> g) ids)
                                         (map int [0..<length (filter (\<lambda>i. i \<noteq> g) ids)]))"
proof (cases "G \<noteq> None \<and> G \<noteq> Some []")
  case True
  then obtain g where "G = Some g" by auto
  with True show ?thesis by (simp add: assignIndices_ground [OF assms])
next
  case False
  show ?thesis
    unfolding if_not_P [OF False]
  proof (cases ids)
    case Nil
    then show "fst (assignIndices ids
                      (if length ids > 0 then mapSet (ids ! 0) (- 1) [] else [], 0))
                 = (case (case ids of [] \<Rightarrow> None | i # _ \<Rightarrow> Some i) of
                      None \<Rightarrow> []
                    | Some g \<Rightarrow> (g, - 1) # zip (filter (\<lambda>i. i \<noteq> g) ids)
                                    (map int [0..<length (filter (\<lambda>i. i \<noteq> g) ids)]))"
      by simp
  next
    case (Cons i rest)
    have "fst (assignIndices ids ([(i, - 1)], 0))
            = (i, - 1) # zip (filter (\<lambda>j. j \<noteq> i) ids)
                             (map int [0..<length (filter (\<lambda>j. j \<noteq> i) ids)])"
      by (rule assignIndices_ground [OF assms])
    with Cons show "fst (assignIndices ids
                      (if length ids > 0 then mapSet (ids ! 0) (- 1) [] else [], 0))
                 = (case (case ids of [] \<Rightarrow> None | i # _ \<Rightarrow> Some i) of
                      None \<Rightarrow> []
                    | Some g \<Rightarrow> (g, - 1) # zip (filter (\<lambda>i. i \<noteq> g) ids)
                                    (map int [0..<length (filter (\<lambda>i. i \<noteq> g) ids)]))"
      by simp
  qed
qed

text \<open>
  C2 fails for a battery.  A 9 V battery across a resistor, the resistor first in the list:
  there is a component of the family, and the node of its second terminal \<open>B1-negative\<close>
  is not taken as ground.  It gets the matrix row 0, and the ground sentinel goes to the first
  node discovered, which holds the first terminal \<open>B1-positive\<close> of the battery.
\<close>

theorem battery_negative_not_ground:
  "identifyNodes batteryCircuit [wire7, wire8]
     = Some \<lparr>nodes = [(''R1-terminal1'', [''R1-terminal1'', ''B1-positive'']),
                      (''B1-negative'', [''R1-terminal2'', ''B1-negative''])],
             terminalToNode = [(''R1-terminal1'', ''R1-terminal1''),
                               (''R1-terminal2'', ''B1-negative''),
                               (''B1-positive'', ''R1-terminal1''),
                               (''B1-negative'', ''B1-negative'')],
             nodeIndex = [(''R1-terminal1'', - 1), (''B1-negative'', 0)]\<rparr>
   \<and> map ctype batteryCircuit = [RESISTOR, BATTERY]
   \<and> map tid (terminals (batteryCircuit ! 1)) = [''B1-positive'', ''B1-negative'']"
proof -
  have "identifyNodes batteryCircuit [wire7, wire8]
     = Some \<lparr>nodes = [(''R1-terminal1'', [''R1-terminal1'', ''B1-positive'']),
                      (''B1-negative'', [''R1-terminal2'', ''B1-negative''])],
             terminalToNode = [(''R1-terminal1'', ''R1-terminal1''),
                               (''R1-terminal2'', ''B1-negative''),
                               (''B1-positive'', ''R1-terminal1''),
                               (''B1-negative'', ''B1-negative'')],
             nodeIndex = [(''R1-terminal1'', - 1), (''B1-negative'', 0)]\<rparr>"
    unfolding batteryCircuit_def wire7_def wire8_def by code_simp
  moreover have "map ctype batteryCircuit = [RESISTOR, BATTERY]"
    by (simp add: batteryCircuit_def constructor_defs)
  moreover have "map tid (terminals (batteryCircuit ! 1)) = [''B1-positive'', ''B1-negative'']"
    by (simp add: batteryCircuit_def constructor_defs)
  ultimately show ?thesis by (intro conjI)
qed

text \<open>
  C2, amended.  For every component list and wire list the node identification returns, with
  every terminal in a node.  If there is a dedicated voltage source, the node that holds the
  second terminal of the first one becomes ground (given that this source has a second
  terminal and that the node's id is not the empty string); in every other case, also when
  there are batteries or ground references, the first node discovered becomes ground.  The
  ground node is entered first, with the sentinel \<open>-1\<close>, and the other nodes get the rows
  \<open>0..N-1\<close> in discovery order.
\<close>

theorem ground_selection:
  "\<exists>nm. identifyNodes cs ws = Some nm
     \<and> (\<forall>t \<in> set (concat (map terminals cs)).
          \<exists>g ms. map_of (terminalToNode nm) (tid t) = Some g
                \<and> map_of (nodes nm) g = Some ms \<and> tid t \<in> set ms)
     \<and> (let ids = map fst (nodes nm);
            first = (case ids of [] \<Rightarrow> None | i # _ \<Rightarrow> Some i);
            ground = (case List.find (\<lambda>c. ctype c = VOLTAGE_SOURCE) cs of
                        None \<Rightarrow> first
                      | Some vs \<Rightarrow>
                          (if 1 < length (terminals vs)
                              \<and> map_of (terminalToNode nm) (tid (terminals vs ! 1)) \<noteq> Some []
                           then map_of (terminalToNode nm) (tid (terminals vs ! 1))
                           else first))
        in nodeIndex nm
             = (case ground of
                  None \<Rightarrow> []
                | Some g \<Rightarrow> (g, - 1) # zip (filter (\<lambda>i. i \<noteq> g) ids)
                                           (map int [0..<length (filter (\<lambda>i. i \<noteq> g) ids)])))"
proof -
  from unionWires_forest [OF initParent_forest] obtain p1
    where u: "unionWires ws (initParent cs) = Some p1"
      and k1: "map fst p1 = map fst (initParent cs)" and f1: "forest p1" by blast
  have sub: "set (map fst p1) \<subseteq> fst ` set p1" by simp
  have "distinct (map fst ([] :: (string \<times> string list) list))" by simp
  from buildNodes_inv [OF f1 sub this placed_empty] obtain p2 nds t2n
    where b: "buildNodes (map fst p1) (p1, [], []) = Some (p2, nds, t2n)"
      and d: "distinct (map fst nds)" and pl: "placed p2 nds t2n"
      and keys: "fst ` set t2n = fst ` set ([] :: (string \<times> string) list) \<union> set (map fst p1)"
    by blast
  have "fst ` set t2n = fst ` set (initParent cs)"
    using keys keys_eq [OF k1] by simp
  then have tk: "fst ` set t2n = tid ` set (concat (map terminals cs))"
    by (simp only: initParent_keys)
  then have tk': "tid ` set (concat (map terminals cs)) \<subseteq> fst ` set t2n" by simp
  define G where "G = (case List.find (\<lambda>c. ctype c = VOLTAGE_SOURCE) cs of
                         None \<Rightarrow> None
                       | Some vs \<Rightarrow> if 1 < length (terminals vs)
                                    then map_of t2n (tid (terminals vs ! 1)) else None)"
  have g: "groundNodeId cs p2 = Some G"
    unfolding G_def by (rule groundNodeId_placed [OF pl tk'])
  define idx where "idx = fst (assignIndices (map fst nds)
               (if G \<noteq> None \<and> G \<noteq> Some []
                then mapSet (the G) (- 1) []
                else if length (map fst nds) > 0 then mapSet (map fst nds ! 0) (- 1) [] else [], 0))"
  define nm where "nm = \<lparr>nodes = nds, terminalToNode = t2n, nodeIndex = idx\<rparr>"
  have r: "identifyNodes cs ws = Some nm"
    by (simp add: identifyNodes_def u b g Let_def nm_def idx_def)
  have terms: "\<forall>t \<in> set (concat (map terminals cs)).
          \<exists>g ms. map_of (terminalToNode nm) (tid t) = Some g
                \<and> map_of (nodes nm) g = Some ms \<and> tid t \<in> set ms"
  proof
    fix t assume "t \<in> set (concat (map terminals cs))"
    then have "tid t \<in> fst ` set t2n" unfolding tk by (rule imageI)
    from key_map_of [OF this] obtain g where "map_of t2n (tid t) = Some g" by blast
    with pl show "\<exists>g ms. map_of (terminalToNode nm) (tid t) = Some g
                \<and> map_of (nodes nm) g = Some ms \<and> tid t \<in> set ms"
      unfolding placed_def nm_def by auto
  qed
  define first where "first = (case map fst nds of [] \<Rightarrow> None | i # _ \<Rightarrow> Some i)"
  have sel: "(case List.find (\<lambda>c. ctype c = VOLTAGE_SOURCE) cs of
                None \<Rightarrow> first
              | Some vs \<Rightarrow>
                  (if 1 < length (terminals vs)
                      \<and> map_of t2n (tid (terminals vs ! 1)) \<noteq> Some []
                   then map_of t2n (tid (terminals vs ! 1))
                   else first))
             = (if G \<noteq> None \<and> G \<noteq> Some [] then G else first)"
  proof (cases "List.find (\<lambda>c. ctype c = VOLTAGE_SOURCE) cs")
    case None
    then show ?thesis by (simp add: G_def)
  next
    case (Some vs)
    show ?thesis
    proof (cases "1 < length (terminals vs)")
      case False
      with Some show ?thesis by (simp add: G_def)
    next
      case True
      from Some have "vs \<in> set cs" by (auto simp add: find_Some_iff)
      moreover from True have "terminals vs ! 1 \<in> set (terminals vs)" by simp
      ultimately have "terminals vs ! 1 \<in> set (concat (map terminals cs))" by auto
      then have "tid (terminals vs ! 1) \<in> fst ` set t2n" unfolding tk by (rule imageI)
      from key_map_of [OF this] obtain g where "map_of t2n (tid (terminals vs ! 1)) = Some g"
        by blast
      with Some True show ?thesis by (simp add: G_def)
    qed
  qed
  have "idx = (case (if G \<noteq> None \<and> G \<noteq> Some [] then G else first) of
                 None \<Rightarrow> []
               | Some g \<Rightarrow> (g, - 1) # zip (filter (\<lambda>i. i \<noteq> g) (map fst nds))
                             (map int [0..<length (filter (\<lambda>i. i \<noteq> g) (map fst nds))]))"
    unfolding idx_def first_def by (rule nodeIndex_closed [OF d])
  then have index: "let ids = map fst (nodes nm);
            first = (case ids of [] \<Rightarrow> None | i # _ \<Rightarrow> Some i);
            ground = (case List.find (\<lambda>c. ctype c = VOLTAGE_SOURCE) cs of
                        None \<Rightarrow> first
                      | Some vs \<Rightarrow>
                          (if 1 < length (terminals vs)
                              \<and> map_of (terminalToNode nm) (tid (terminals vs ! 1)) \<noteq> Some []
                           then map_of (terminalToNode nm) (tid (terminals vs ! 1))
                           else first))
        in nodeIndex nm
             = (case ground of
                  None \<Rightarrow> []
                | Some g \<Rightarrow> (g, - 1) # zip (filter (\<lambda>i. i \<noteq> g) ids)
                                           (map int [0..<length (filter (\<lambda>i. i \<noteq> g) ids)]))"
    unfolding Let_def using sel by (simp only: nm_def NodeMaps.simps first_def)
  from r terms index show ?thesis by (intro exI [of _ nm] conjI)
qed

text \<open>
  The 5 V source across the resistor: the first node discovered holds \<open>V1-positive\<close>, and
  ground is the node of \<open>V1-negative\<close>, the second terminal of the source.
\<close>

theorem ground_selection_witness:
  "identifyNodes (resistorCircuit 5 1000) [wire1, wire2] = Some resistorCircuit_maps
   \<and> map fst (nodes resistorCircuit_maps) = [''R1-terminal1'', ''V1-negative'']
   \<and> List.find (\<lambda>c. ctype c = VOLTAGE_SOURCE) (resistorCircuit 5 1000) = Some (dcSource 5)
   \<and> tid (terminals (dcSource 5) ! 1) = ''V1-negative''
   \<and> map_of (terminalToNode resistorCircuit_maps) ''V1-negative'' = Some ''V1-negative''
   \<and> nodeIndex resistorCircuit_maps = [(''V1-negative'', - 1), (''R1-terminal1'', 0)]"
proof -
  have 1: "identifyNodes (resistorCircuit 5 1000) [wire1, wire2] = Some resistorCircuit_maps"
    by (rule identifyNodes_resistorCircuit)
  have 2: "map fst (nodes resistorCircuit_maps) = [''R1-terminal1'', ''V1-negative'']"
    by (simp add: resistorCircuit_maps_def)
  have 3: "List.find (\<lambda>c. ctype c = VOLTAGE_SOURCE) (resistorCircuit 5 1000) = Some (dcSource 5)"
    by (simp add: resistorCircuit_def dcSource_def constructor_defs)
  have 4: "tid (terminals (dcSource 5) ! 1) = ''V1-negative''"
    by (simp add: dcSource_def constructor_defs)
  have 5: "map_of (terminalToNode resistorCircuit_maps) ''V1-negative'' = Some ''V1-negative''"
    by (simp add: resistorCircuit_maps_def)
  have 6: "1 < length (terminals (dcSource 5))"
    by (simp add: dcSource_def constructor_defs)
  from ground_selection [of "resistorCircuit 5 1000" "[wire1, wire2]"] obtain nm
    where a: "identifyNodes (resistorCircuit 5 1000) [wire1, wire2] = Some nm"
      and i: "let ids = map fst (nodes nm);
            first = (case ids of [] \<Rightarrow> None | i # _ \<Rightarrow> Some i);
            ground = (case List.find (\<lambda>c. ctype c = VOLTAGE_SOURCE) (resistorCircuit 5 1000) of
                        None \<Rightarrow> first
                      | Some vs \<Rightarrow>
                          (if 1 < length (terminals vs)
                              \<and> map_of (terminalToNode nm) (tid (terminals vs ! 1)) \<noteq> Some []
                           then map_of (terminalToNode nm) (tid (terminals vs ! 1))
                           else first))
        in nodeIndex nm
             = (case ground of
                  None \<Rightarrow> []
                | Some g \<Rightarrow> (g, - 1) # zip (filter (\<lambda>i. i \<noteq> g) ids)
                                           (map int [0..<length (filter (\<lambda>i. i \<noteq> g) ids)]))"
    by blast
  from a 1 have nm: "nm = resistorCircuit_maps" by simp
  from i have 7: "nodeIndex resistorCircuit_maps = [(''V1-negative'', - 1), (''R1-terminal1'', 0)]"
    unfolding nm Let_def by (simp add: 2 3 4 5 6 del: One_nat_def)
  from 1 2 3 4 5 7 show ?thesis by (intro conjI)
qed

end
